theory Spec2Isabelle
  imports Complex_Main "HOL-Library.AList"
begin

section \<open>Data model\<close>

text \<open>
  The matcher reads profiles decoded from a JSON document. A decoded value is one of
  Python's \<^verbatim>\<open>None\<close>, \<^verbatim>\<open>bool\<close>, \<^verbatim>\<open>int\<close>, \<^verbatim>\<open>str\<close>, \<^verbatim>\<open>list\<close> or \<^verbatim>\<open>dict\<close>. An object keeps the order
  of its members (Python dicts are ordered), so it is an association list. JSON numbers
  with a fraction or an exponent (Python floats) are not part of this model of the
  input; strings are ASCII text.
\<close>

datatype json =
    JNull
  | JBool bool
  | JInt int
  | JStr string
  | JList "json list"
  | JObj "(string \<times> json) list"

type_synonym profile = "(string \<times> json) list"

text \<open>\<^verbatim>\<open>d.get(k)\<close>: the value, or \<^verbatim>\<open>None\<close> when the key is absent.\<close>

definition get :: "profile \<Rightarrow> string \<Rightarrow> json" where
  "get d k = (case map_of d k of None \<Rightarrow> JNull | Some v \<Rightarrow> v)"

text \<open>\<^verbatim>\<open>d.get(k, default)\<close>.\<close>

definition get_default :: "profile \<Rightarrow> string \<Rightarrow> json \<Rightarrow> json" where
  "get_default d k dflt = (case map_of d k of None \<Rightarrow> dflt | Some v \<Rightarrow> v)"

text \<open>Python truthiness, as \<^verbatim>\<open>if x\<close>, \<^verbatim>\<open>x and y\<close>, \<^verbatim>\<open>x or y\<close> and \<^verbatim>\<open>not x\<close> test it.\<close>

fun py_truthy :: "json \<Rightarrow> bool" where
  "py_truthy JNull = False"
| "py_truthy (JBool b) = b"
| "py_truthy (JInt i) = (i \<noteq> 0)"
| "py_truthy (JStr s) = (s \<noteq> [])"
| "py_truthy (JList xs) = (xs \<noteq> [])"
| "py_truthy (JObj kvs) = (kvs \<noteq> [])"

text \<open>\<^verbatim>\<open>x or y\<close> on values.\<close>

definition py_or :: "json \<Rightarrow> json \<Rightarrow> json" where
  "py_or x y = (if py_truthy x then x else y)"

section \<open>String primitives\<close>

text \<open>
  The characters \<^verbatim>\<open>str.strip\<close>, \<^verbatim>\<open>str.split\<close> and the regular expression class \<^verbatim>\<open>\s\<close> treat as
  white space (in ASCII: tab, line feed, vertical tab, form feed, carriage return, the
  four separators 0x1C to 0x1F, and the space).
\<close>

definition is_space :: "char \<Rightarrow> bool" where
  "is_space c = (c \<in> set [CHR 0x09, CHR 0x0A, CHR 0x0B, CHR 0x0C, CHR 0x0D,
                            CHR 0x1C, CHR 0x1D, CHR 0x1E, CHR 0x1F, CHR '' ''])"

text \<open>The regular expression class \<^verbatim>\<open>\w\<close> on ASCII: letters, digits and the underscore.\<close>

definition is_word :: "char \<Rightarrow> bool" where
  "is_word c = (c \<in> set (''abcdefghijklmnopqrstuvwxyz'' @ ''ABCDEFGHIJKLMNOPQRSTUVWXYZ''
                           @ ''0123456789_''))"

text \<open>\<^verbatim>\<open>str.lower\<close>, one character.\<close>

definition lower_char :: "char \<Rightarrow> char" where
  "lower_char c =
     (case map_of (zip ''ABCDEFGHIJKLMNOPQRSTUVWXYZ'' ''abcdefghijklmnopqrstuvwxyz'') c of
        None \<Rightarrow> c
      | Some d \<Rightarrow> d)"

definition py_lower :: "string \<Rightarrow> string" where
  "py_lower s = map lower_char s"

text \<open>\<^verbatim>\<open>str.strip()\<close>.\<close>

definition py_strip :: "string \<Rightarrow> string" where
  "py_strip s = rev (dropWhile is_space (rev (dropWhile is_space s)))"

text \<open>
  \<^verbatim>\<open>re.sub(r'\s+', ' ', s)\<close>: every maximal run of white space becomes one space. The flag
  says that the scan is inside a run whose space has been written already.
\<close>

fun collapse_from :: "bool \<Rightarrow> string \<Rightarrow> string" where
  "collapse_from in_run [] = []"
| "collapse_from in_run (c # cs) =
     (if is_space c
      then (if in_run then collapse_from True cs else CHR '' '' # collapse_from True cs)
      else c # collapse_from False cs)"

definition collapse_ws :: "string \<Rightarrow> string" where
  "collapse_ws s = collapse_from False s"

text \<open>\<^verbatim>\<open>str.split()\<close> with no argument: the maximal runs of characters that are not white space.\<close>

fun split_from :: "string \<Rightarrow> string \<Rightarrow> string list" where
  "split_from cur [] = (if cur = [] then [] else [cur])"
| "split_from cur (c # cs) =
     (if is_space c
      then (if cur = [] then split_from [] cs else cur # split_from [] cs)
      else split_from (cur @ [c]) cs)"

definition py_split :: "string \<Rightarrow> string list" where
  "py_split s = split_from [] s"

text \<open>
  \<^verbatim>\<open>re.sub(r'\b' + abbr + r'\b', full, s)\<close> for a literal \<^verbatim>\<open>abbr\<close> of word characters: scanning
  from the left, an occurrence of \<^verbatim>\<open>abbr\<close> that neither follows nor precedes a word
  character is replaced by \<^verbatim>\<open>full\<close> and the scan goes on behind it. The flag says whether
  the character before the scan position is a word character.
\<close>

fun re_sub_word :: "string \<Rightarrow> string \<Rightarrow> bool \<Rightarrow> string \<Rightarrow> string" where
  "re_sub_word abbr full prev_word [] = []"
| "re_sub_word abbr full prev_word (c # cs) =
     (if \<not> prev_word \<and> abbr \<noteq> [] \<and> take (length abbr) (c # cs) = abbr
         \<and> (case drop (length abbr - 1) cs of [] \<Rightarrow> True | d # _ \<Rightarrow> \<not> is_word d)
      then full @ re_sub_word abbr full True (drop (length abbr - 1) cs)
      else c # re_sub_word abbr full (is_word c) cs)"

section \<open>Location normalizer\<close>

text \<open>The table of \<^verbatim>\<open>normalize_location\<close>, in the order the source lists it.\<close>

definition abbreviations :: "(string \<times> string) list" where
  "abbreviations =
    [(''ny'', ''new york''), (''ca'', ''california''), (''tx'', ''texas''),
     (''fl'', ''florida''), (''il'', ''illinois''), (''pa'', ''pennsylvania''),
     (''az'', ''arizona''), (''ma'', ''massachusetts''), (''tn'', ''tennessee''),
     (''in'', ''indiana''), (''mo'', ''missouri''), (''md'', ''maryland''),
     (''wi'', ''wisconsin''), (''co'', ''colorado''), (''mn'', ''minnesota''),
     (''sc'', ''south carolina''), (''al'', ''alabama''), (''la'', ''louisiana''),
     (''ky'', ''kentucky''), (''or'', ''oregon''), (''ok'', ''oklahoma''),
     (''ct'', ''connecticut''), (''ut'', ''utah''), (''ia'', ''iowa''),
     (''nv'', ''nevada''), (''ar'', ''arkansas''), (''ms'', ''mississippi''),
     (''ks'', ''kansas''), (''nm'', ''new mexico''), (''ne'', ''nebraska''),
     (''wv'', ''west virginia''), (''id'', ''idaho''), (''hi'', ''hawaii''),
     (''nh'', ''new hampshire''), (''me'', ''maine''), (''mt'', ''montana''),
     (''ri'', ''rhode island''), (''de'', ''delaware''), (''sd'', ''south dakota''),
     (''nd'', ''north dakota''), (''ak'', ''alaska''), (''dc'', ''washington dc''),
     (''vt'', ''vermont''), (''wy'', ''wyoming'')]"

text \<open>The loop over the table: each abbreviation is substituted in the whole string in turn.\<close>

fun expand_abbreviations :: "(string \<times> string) list \<Rightarrow> string \<Rightarrow> string" where
  "expand_abbreviations [] normalized = normalized"
| "expand_abbreviations ((abbr, full) # rest) normalized =
     expand_abbreviations rest (re_sub_word abbr full False normalized)"

text \<open>
  \<^verbatim>\<open>normalize_location\<close>: the empty string for a missing, empty or non-string value;
  otherwise lower case, stripped, without the characters \<^verbatim>\<open>. , ;\<close>, abbreviations
  expanded, white space collapsed and stripped again.
\<close>

definition normalize_str :: "string \<Rightarrow> string" where
  "normalize_str location =
     (let normalized = py_strip (py_lower location);
          normalized = filter (\<lambda>c. c \<notin> set ''.,;'') normalized;
          normalized = expand_abbreviations abbreviations normalized
      in py_strip (collapse_ws normalized))"

fun normalize_location :: "json \<Rightarrow> string" where
  "normalize_location (JStr location) = (if location = [] then [] else normalize_str location)"
| "normalize_location _ = []"

section \<open>Location similarity scorer\<close>

definition stop_words :: "string set" where
  "stop_words = {''the'', ''a'', ''an'', ''and'', ''or'', ''but'', ''in'', ''on'', ''at'',
                 ''to'', ''for'', ''of'', ''with'', ''by''}"

text \<open>
  The body of the double loop of \<^verbatim>\<open>compute_location_similarity\<close>: the entry of the
  matrix for one mentee location and one mentor location. Scores are Python floats,
  modelled as real numbers.
\<close>

definition norm_of :: "json \<Rightarrow> string" where
  "norm_of loc = (if py_truthy loc then normalize_location loc else [])"

definition words_of :: "string \<Rightarrow> string set" where
  "words_of normalized = (if normalized \<noteq> [] then set (py_split normalized) else {})"

definition location_entry :: "json \<Rightarrow> json \<Rightarrow> real" where
  "location_entry mentee_loc mentor_loc =
     (let mentee_normalized = norm_of mentee_loc;
          mentee_words = words_of mentee_normalized;
          mentor_normalized = norm_of mentor_loc;
          mentor_words = words_of mentor_normalized
      in if mentee_normalized = [] \<and> mentor_normalized = [] then 0
         else if mentee_normalized = mentor_normalized \<and> mentee_normalized \<noteq> [] then 1
         else if mentee_words \<noteq> {} \<and> mentor_words \<noteq> {} then
           (let common_words = (mentee_words \<inter> mentor_words) - stop_words
            in if common_words \<noteq> {} then
                 (let union_words = mentee_words \<union> mentor_words
                  in if union_words \<noteq> {}
                     then real (card common_words) / real (card union_words) * 0.5
                     else 0)
               else 0)
         else 0)"

section \<open>Errors and arrays\<close>

text \<open>The exceptions the modelled code can raise. \<open>OtherError\<close> stands for any other exception
  a library call raises.\<close>

datatype error = TypeError | IndexError | KeyError | ValueError | AttributeError | OtherError

text \<open>
  Steps that can raise, run in order (a list comprehension, or the statements of a block):
  the first exception leaves them.
\<close>

fun collect :: "(error + 'a) list \<Rightarrow> error + 'a list" where
  "collect [] = Inr []"
| "collect (x # xs) =
     (case x of
        Inl e \<Rightarrow> Inl e
      | Inr v \<Rightarrow> (case collect xs of Inl e \<Rightarrow> Inl e | Inr vs \<Rightarrow> Inr (v # vs)))"

text \<open>
  A two-dimensional numpy array: its shape and its cells. Cells outside the shape are never
  read: \<^verbatim>\<open>a[i, j]\<close> with an index out of range raises \<^verbatim>\<open>IndexError\<close> (the indices the
  matcher uses come from \<^verbatim>\<open>enumerate\<close> and \<^verbatim>\<open>range\<close>, so they are never negative).
\<close>

record 'a ndarray =
  nrows :: nat
  ncols :: nat
  cell :: "nat \<Rightarrow> nat \<Rightarrow> 'a"

definition nd_get :: "'a ndarray \<Rightarrow> nat \<Rightarrow> nat \<Rightarrow> error + 'a" where
  "nd_get a i j = (if i < nrows a \<and> j < ncols a then Inr (cell a i j) else Inl IndexError)"

definition nd_map :: "('a \<Rightarrow> 'b) \<Rightarrow> 'a ndarray \<Rightarrow> 'b ndarray" where
  "nd_map f a = \<lparr>nrows = nrows a, ncols = ncols a, cell = (\<lambda>i j. f (cell a i j))\<rparr>"

text \<open>An array given by its rows (for concrete inputs).\<close>

definition nd_of_rows :: "'a list list \<Rightarrow> 'a ndarray" where
  "nd_of_rows rows =
     \<lparr>nrows = length rows, ncols = (case rows of [] \<Rightarrow> 0 | r # _ \<Rightarrow> length r),
      cell = (\<lambda>i j. rows ! i ! j)\<rparr>"

text \<open>
  numpy's broadcasting of one dimension: equal sizes agree, a size of 1 stretches to the
  other, anything else raises \<^verbatim>\<open>ValueError\<close>.
\<close>

definition broadcast_dim :: "nat \<Rightarrow> nat \<Rightarrow> nat option" where
  "broadcast_dim a b =
     (if a = b then Some a else if a = 1 then Some b else if b = 1 then Some a else None)"

definition stretch :: "nat \<Rightarrow> nat \<Rightarrow> nat" where
  "stretch n i = (if n = 1 then 0 else i)"

text \<open>\<^verbatim>\<open>a + b\<close> on arrays.\<close>

definition nd_add :: "real ndarray \<Rightarrow> real ndarray \<Rightarrow> error + real ndarray" where
  "nd_add a b =
     (case (broadcast_dim (nrows a) (nrows b), broadcast_dim (ncols a) (ncols b)) of
        (Some r, Some c) \<Rightarrow>
          Inr \<lparr>nrows = r, ncols = c,
               cell = (\<lambda>i j. cell a (stretch (nrows a) i) (stretch (ncols a) j)
                            + cell b (stretch (nrows b) i) (stretch (ncols b) j))\<rparr>
      | _ \<Rightarrow> Inl ValueError)"

text \<open>\<^verbatim>\<open>w * a\<close> for a scalar \<^verbatim>\<open>w\<close>.\<close>

definition nd_scale :: "real \<Rightarrow> real ndarray \<Rightarrow> real ndarray" where
  "nd_scale w a = nd_map (\<lambda>x. w * x) a"

text \<open>\<^verbatim>\<open>compute_location_similarity\<close>: one row per mentee, one column per mentor.\<close>

definition compute_location_similarity :: "json list \<Rightarrow> json list \<Rightarrow> real ndarray" where
  "compute_location_similarity mentor_locations mentee_locations =
     \<lparr>nrows = length mentee_locations, ncols = length mentor_locations,
      cell = (\<lambda>i j. location_entry (mentee_locations ! i) (mentor_locations ! j))\<rparr>"

section \<open>Score combiner\<close>

text \<open>
  A cell of the array sklearn's \<^verbatim>\<open>cosine_similarity\<close> returns: a finite number, or one of
  the three special floating-point values. Finite floats are modelled as real numbers and
  their arithmetic as exact.
\<close>

datatype npfloat = Num real | NaN | PosInf | NegInf

text \<open>\<^verbatim>\<open>np.nan_to_num(x, nan=..., posinf=..., neginf=...)\<close> on one cell.\<close>

fun nan_to_num :: "real \<Rightarrow> real \<Rightarrow> real \<Rightarrow> npfloat \<Rightarrow> real" where
  "nan_to_num nan posinf neginf (Num r) = r"
| "nan_to_num nan posinf neginf NaN = nan"
| "nan_to_num nan posinf neginf PosInf = posinf"
| "nan_to_num nan posinf neginf NegInf = neginf"

text \<open>
  \<^verbatim>\<open>compute_similarity_scores\<close>. The library function \<^verbatim>\<open>cosine_similarity\<close> is a parameter: it
  returns an array or raises. A location list that is \<^verbatim>\<open>None\<close> is the empty list here (both
  are falsy).
\<close>

definition compute_similarity_scores ::
  "(real ndarray \<Rightarrow> real ndarray \<Rightarrow> error + npfloat ndarray) \<Rightarrow>
   real ndarray \<Rightarrow> real ndarray \<Rightarrow> json list \<Rightarrow> json list \<Rightarrow> real \<Rightarrow> real \<Rightarrow>
   error + real ndarray" where
  "compute_similarity_scores cosine_similarity mentor_vectors mentee_vectors
       mentor_locations mentee_locations profile_weight location_weight =
     (case cosine_similarity mentee_vectors mentor_vectors of
        Inl e \<Rightarrow> Inl e
      | Inr raw \<Rightarrow>
          (let profile_similarity = nd_map (nan_to_num 0 1 0) raw
           in if mentor_locations \<noteq> [] \<and> mentee_locations \<noteq> [] then
                (let location_similarity =
                       compute_location_similarity mentor_locations mentee_locations;
                     total_weight = profile_weight + location_weight
                 in if total_weight > 0 then
                      (let profile_weight_norm = profile_weight / total_weight;
                           location_weight_norm = location_weight / total_weight
                       in nd_add (nd_scale profile_weight_norm profile_similarity)
                                 (nd_scale location_weight_norm location_similarity))
                    else Inr profile_similarity)
              else Inr profile_similarity))"

section \<open>Text of a value\<close>

text \<open>\<^verbatim>\<open>sep.join(parts)\<close>.\<close>

fun py_join :: "string \<Rightarrow> string list \<Rightarrow> string" where
  "py_join sep [] = []"
| "py_join sep [x] = x"
| "py_join sep (x # y # ys) = x @ sep @ py_join sep (y # ys)"

text \<open>\<^verbatim>\<open>str\<close> of an integer: decimal digits, with a minus sign when negative.\<close>

definition digit_char :: "nat \<Rightarrow> char" where
  "digit_char d = ''0123456789abcdef'' ! d"

fun nat_digits :: "nat \<Rightarrow> string" where
  "nat_digits n =
     (if n < 10 then [digit_char n] else nat_digits (n div 10) @ [digit_char (n mod 10)])"

declare nat_digits.simps [simp del]

definition int_str :: "int \<Rightarrow> string" where
  "int_str i = (if i < 0 then CHR ''-'' # nat_digits (nat (- i)) else nat_digits (nat i))"

text \<open>
  \<^verbatim>\<open>repr\<close> of an ASCII string: quoted with single quotes, or with double quotes when the
  string has a single quote and no double quote; the quote character and the backslash
  are escaped, tab, line feed and carriage return are written \<^verbatim>\<open>\t \n \r\<close>, and the other
  control characters as \<^verbatim>\<open>\xNN\<close>.
\<close>

definition escape_char :: "char \<Rightarrow> char \<Rightarrow> string" where
  "escape_char quote c =
     (if c = quote \<or> c = CHR 0x5C then [CHR 0x5C, c]
      else if c = CHR 0x09 then [CHR 0x5C, CHR ''t'']
      else if c = CHR 0x0A then [CHR 0x5C, CHR ''n'']
      else if c = CHR 0x0D then [CHR 0x5C, CHR ''r'']
      else if (of_char c :: nat) < 32 \<or> (of_char c :: nat) = 127
      then [CHR 0x5C, CHR ''x'', digit_char (of_char c div 16), digit_char (of_char c mod 16)]
      else [c])"

definition repr_str :: "string \<Rightarrow> string" where
  "repr_str s =
     (let quote = (if CHR 0x27 \<in> set s \<and> CHR 0x22 \<notin> set s then CHR 0x22 else CHR 0x27)
      in quote # concat (map (escape_char quote) s) @ [quote])"

text \<open>\<^verbatim>\<open>repr\<close> of a decoded JSON value.\<close>

fun py_repr :: "json \<Rightarrow> string"
  and repr_items :: "json list \<Rightarrow> string list"
  and repr_members :: "(string \<times> json) list \<Rightarrow> string list" where
  "py_repr JNull = ''None''"
| "py_repr (JBool b) = (if b then ''True'' else ''False'')"
| "py_repr (JInt i) = int_str i"
| "py_repr (JStr s) = repr_str s"
| "py_repr (JList xs) = ''['' @ py_join '', '' (repr_items xs) @ '']''"
| "py_repr (JObj kvs) = ''{'' @ py_join '', '' (repr_members kvs) @ ''}''"
| "repr_items [] = []"
| "repr_items (x # xs) = py_repr x # repr_items xs"
| "repr_members [] = []"
| "repr_members ((k, v) # kvs) = (repr_str k @ '': '' @ py_repr v) # repr_members kvs"

text \<open>\<^verbatim>\<open>str(x)\<close>: a string is itself, any other value its \<^verbatim>\<open>repr\<close>.\<close>

fun py_str :: "json \<Rightarrow> string" where
  "py_str (JStr s) = s"
| "py_str v = py_repr v"

text \<open>
  The interpreter's \<^verbatim>\<open>str\<close> can raise: \<^verbatim>\<open>ValueError\<close> on an integer with more digits than
  the limit of the conversion (4300 by default), also inside a list or an object, and
  \<^verbatim>\<open>RecursionError\<close> on a value nested too deeply. Which values these are depends on
  the interpreter's settings, so the exception of \<^verbatim>\<open>str(x)\<close>, if any, is a parameter. A
  string is returned as it is. The text extractor converts through \<open>str_checked\<close>. The
  conversion \<^verbatim>\<open>str(mentor_id)\<close> of the matcher is \<^const>\<open>py_str\<close> itself: the ids of the
  concrete runs are short, and the general properties of the matcher are about the runs
  that return.
\<close>

definition str_checked :: "(json \<Rightarrow> error option) \<Rightarrow> json \<Rightarrow> error + string" where
  "str_checked str_error x =
     (case x of
        JStr s \<Rightarrow> Inr s
      | _ \<Rightarrow> (case str_error x of Some e \<Rightarrow> Inl e | None \<Rightarrow> Inr (py_str x)))"

section \<open>Profile text extractor\<close>

text \<open>
  The nested helper \<^verbatim>\<open>extract_dict_values\<close>: the stripped non-blank strings reachable in a
  value, down to the depth bound.
\<close>

fun extract_dict_values :: "json \<Rightarrow> nat \<Rightarrow> nat \<Rightarrow> string list"
  and extract_items :: "json list \<Rightarrow> nat \<Rightarrow> nat \<Rightarrow> string list"
  and extract_members :: "(string \<times> json) list \<Rightarrow> nat \<Rightarrow> nat \<Rightarrow> string list" where
  "extract_dict_values (JObj kvs) max_depth current_depth =
     (if current_depth \<ge> max_depth then []
      else extract_members kvs max_depth (current_depth + 1))"
| "extract_dict_values (JList xs) max_depth current_depth =
     (if current_depth \<ge> max_depth then []
      else extract_items xs max_depth (current_depth + 1))"
| "extract_dict_values (JStr s) max_depth current_depth =
     (if current_depth \<ge> max_depth then []
      else if length (py_strip s) > 0 then [py_strip s] else [])"
| "extract_dict_values JNull max_depth current_depth = []"
| "extract_dict_values (JBool b) max_depth current_depth = []"
| "extract_dict_values (JInt i) max_depth current_depth = []"
| "extract_items [] max_depth depth = []"
| "extract_items (item # items) max_depth depth =
     extract_dict_values item max_depth depth @ extract_items items max_depth depth"
| "extract_members [] max_depth depth = []"
| "extract_members ((k, v) # kvs) max_depth depth =
     extract_dict_values v max_depth depth @ extract_members kvs max_depth depth"

text \<open>The string values of an object, in order (\<^verbatim>\<open>[str(v) for v in d.values() if isinstance(v, str)]\<close>).\<close>

fun str_values :: "(string \<times> json) list \<Rightarrow> string list" where
  "str_values [] = []"
| "str_values ((k, JStr s) # kvs) = s # str_values kvs"
| "str_values ((k, v) # kvs) = str_values kvs"

text \<open>A field that holds one string (\<^verbatim>\<open>aspirations\<close>, \<^verbatim>\<open>major\<close>): any truthy value is
  converted with \<^verbatim>\<open>str\<close>.\<close>

definition scalar_parts ::
  "(json \<Rightarrow> error option) \<Rightarrow> profile \<Rightarrow> string \<Rightarrow> error + string list" where
  "scalar_parts str_error profile key =
     (if py_truthy (get profile key) then
        (case str_checked str_error (get profile key) of
           Inl e \<Rightarrow> Inl e
         | Inr s \<Rightarrow> Inr [s])
      else Inr [])"

text \<open>A field that holds a list joined by spaces (\<^verbatim>\<open>skills\<close>, \<^verbatim>\<open>achievements\<close>,
  \<^verbatim>\<open>relevant_coursework\<close>): used when truthy and a list.\<close>

definition joined_parts ::
  "(json \<Rightarrow> error option) \<Rightarrow> profile \<Rightarrow> string \<Rightarrow> error + string list" where
  "joined_parts str_error profile key =
     (case get profile key of
        JList xs \<Rightarrow>
          (if xs \<noteq> [] then
             (case collect (map (str_checked str_error) xs) of
                Inl e \<Rightarrow> Inl e
              | Inr strs \<Rightarrow> Inr [py_join '' '' strs])
           else Inr [])
      | _ \<Rightarrow> Inr [])"

text \<open>A field that holds a list of objects or strings (\<^verbatim>\<open>projects\<close>, \<^verbatim>\<open>experiences\<close>).\<close>

fun element_parts :: "json \<Rightarrow> string list" where
  "element_parts (JObj kvs) = [py_join '' '' (str_values kvs)]"
| "element_parts (JStr s) = [s]"
| "element_parts _ = []"

definition record_parts :: "profile \<Rightarrow> string \<Rightarrow> string list" where
  "record_parts profile key =
     (case get profile key of
        JList xs \<Rightarrow> (if xs \<noteq> [] then concat (map element_parts xs) else [])
      | _ \<Rightarrow> [])"

definition mentor_preference_parts ::
  "(json \<Rightarrow> error option) \<Rightarrow> profile \<Rightarrow> bool \<Rightarrow> error + string list" where
  "mentor_preference_parts str_error profile is_student =
     (if is_student then
        (if py_truthy (get profile ''mentor_preference'') then
           (case str_checked str_error (get profile ''mentor_preference'') of
              Inl e \<Rightarrow> Inl e
            | Inr s \<Rightarrow>
                (let mentor_pref = py_strip s
                 in Inr (if mentor_pref \<noteq> [] then [mentor_pref] else [])))
         else Inr [])
      else Inr [])"

definition resume_text_fields :: "string list" where
  "resume_text_fields = [''summary'', ''objective'', ''description'', ''text'', ''content'']"

text \<open>
  What the library function \<^verbatim>\<open>json.loads\<close> does on a string: it returns the decoded value,
  raises \<^verbatim>\<open>JSONDecodeError\<close>, or raises another exception (the interpreter's \<^verbatim>\<open>ValueError\<close>
  for an integer literal beyond its digit limit, \<^verbatim>\<open>RecursionError\<close> for deep nesting).
\<close>

datatype loads_result = Decoded json | DecodeError | Raised error

text \<open>
  The \<^verbatim>\<open>parsed_resume\<close> block, with \<^verbatim>\<open>json.loads\<close> as a parameter. The code catches
  \<^verbatim>\<open>JSONDecodeError\<close> only: then the string stays as it is. Any other exception leaves
  the function.
\<close>

definition decode_resume :: "(string \<Rightarrow> loads_result) \<Rightarrow> json \<Rightarrow> error + json" where
  "decode_resume loads parsed_resume =
     (case parsed_resume of
        JStr s \<Rightarrow>
          (case loads s of
             Decoded v \<Rightarrow> Inr v
           | DecodeError \<Rightarrow> Inr parsed_resume
           | Raised e \<Rightarrow> Inl e)
      | _ \<Rightarrow> Inr parsed_resume)"

definition resume_field ::
  "(json \<Rightarrow> error option) \<Rightarrow> (string \<times> json) list \<Rightarrow> string \<Rightarrow> error + string list" where
  "resume_field str_error kvs field =
     (case map_of kvs field of
        None \<Rightarrow> Inr []
      | Some v \<Rightarrow> (case str_checked str_error v of Inl e \<Rightarrow> Inl e | Inr s \<Rightarrow> Inr [s]))"

definition resume_parts ::
  "(string \<Rightarrow> loads_result) \<Rightarrow> (json \<Rightarrow> error option) \<Rightarrow> profile \<Rightarrow> error + string list" where
  "resume_parts loads str_error profile =
     (if py_truthy (get profile ''parsed_resume'') then
        (case decode_resume loads (get profile ''parsed_resume'') of
           Inl e \<Rightarrow> Inl e
         | Inr parsed_resume \<Rightarrow>
             (case parsed_resume of
                JObj kvs \<Rightarrow>
                  (case collect (map (resume_field str_error kvs) resume_text_fields) of
                     Inl e \<Rightarrow> Inl e
                   | Inr found \<Rightarrow> Inr (concat found @ extract_dict_values parsed_resume 3 0))
              | _ \<Rightarrow> Inr []))
      else Inr [])"

text \<open>
  The fragments \<^verbatim>\<open>extract_text_from_profile\<close> appends to \<^verbatim>\<open>text_parts\<close>, block by block in
  the order of the source. The blocks for \<^verbatim>\<open>projects\<close> and \<^verbatim>\<open>experiences\<close> convert strings
  only and cannot raise.
\<close>

definition text_parts ::
  "(string \<Rightarrow> loads_result) \<Rightarrow> (json \<Rightarrow> error option) \<Rightarrow> profile \<Rightarrow> bool
     \<Rightarrow> error + string list" where
  "text_parts loads str_error profile is_student =
     (case collect
             [mentor_preference_parts str_error profile is_student,
              joined_parts str_error profile ''skills'',
              Inr (record_parts profile ''projects''),
              scalar_parts str_error profile ''aspirations'',
              resume_parts loads str_error profile,
              Inr (record_parts profile ''experiences''),
              joined_parts str_error profile ''achievements'',
              scalar_parts str_error profile ''major'',
              joined_parts str_error profile ''relevant_coursework''] of
        Inl e \<Rightarrow> Inl e
      | Inr blocks \<Rightarrow> Inr (concat blocks))"

text \<open>The last three lines of the function: join, collapse white space, strip.\<close>

definition combine_parts :: "string list \<Rightarrow> string" where
  "combine_parts parts =
     (let combined_text = py_join '' '' parts;
          combined_text = py_strip (collapse_ws combined_text)
      in if combined_text \<noteq> [] then combined_text else [])"

definition extract_text_from_profile ::
  "(string \<Rightarrow> loads_result) \<Rightarrow> (json \<Rightarrow> error option) \<Rightarrow> profile \<Rightarrow> bool
     \<Rightarrow> error + string" where
  "extract_text_from_profile loads str_error profile is_student =
     (case text_parts loads str_error profile is_student of
        Inl e \<Rightarrow> Inl e
      | Inr parts \<Rightarrow> Inr (combine_parts parts))"

section \<open>Matcher\<close>

text \<open>
  Python dictionaries are association lists with distinct keys, in insertion order:
  \<^verbatim>\<open>d[k] = v\<close> is \<^const>\<open>AList.update\<close> (it replaces the value in place or appends the key),
  \<^verbatim>\<open>k in d\<close> and \<^verbatim>\<open>d[k]\<close> are \<^const>\<open>map_of\<close>.

  A dictionary key is compared by \<^verbatim>\<open>==\<close> and hashed: \<^verbatim>\<open>True\<close> and \<^verbatim>\<open>1\<close> are the same key, as are
  \<^verbatim>\<open>False\<close> and \<^verbatim>\<open>0\<close>; a list or a dict is unhashable and raises \<^verbatim>\<open>TypeError\<close>.
\<close>

datatype hkey = KNone | KInt int | KStr string

fun hash_key :: "json \<Rightarrow> error + hkey" where
  "hash_key JNull = Inr KNone"
| "hash_key (JBool b) = Inr (KInt (if b then 1 else 0))"
| "hash_key (JInt i) = Inr (KInt i)"
| "hash_key (JStr s) = Inr (KStr s)"
| "hash_key (JList xs) = Inl TypeError"
| "hash_key (JObj kvs) = Inl TypeError"

text \<open>\<^verbatim>\<open>x > 0\<close>: defined on numbers (a bool is a number), \<^verbatim>\<open>TypeError\<close> on anything else.\<close>

fun py_gt_zero :: "json \<Rightarrow> error + bool" where
  "py_gt_zero (JInt i) = Inr (0 < i)"
| "py_gt_zero (JBool b) = Inr b"
| "py_gt_zero _ = Inl TypeError"

record assignment =
  mentee_id :: json
  mentee_name :: json
  mentee_email :: json
  similarity_score :: real

record mentor_record =
  mentor_id :: json
  mentor_name :: json
  mentor_email :: json
  capacity :: json
  assigned_count :: nat
  mentees :: "assignment list"

type_synonym capacities = "(hkey \<times> json) list"

type_synonym assignments = "(hkey \<times> assignment list) list"

text \<open>The capacity as the first loop reads it: \<^verbatim>\<open>None\<close> (also an absent key) counts as 0.\<close>

definition capacity_of :: "profile \<Rightarrow> json" where
  "capacity_of mentor =
     (let capacity' = get mentor ''mentor_capacity''
      in if capacity' \<noteq> JNull then capacity' else JInt 0)"

text \<open>
  First loop of \<^verbatim>\<open>match_mentees_to_mentors\<close>: the mentors that are willing and have capacity
  get an entry in \<^verbatim>\<open>mentor_capacities\<close> and an empty list in \<^verbatim>\<open>mentor_assignments\<close>.
\<close>

fun init_tracking ::
  "profile list \<Rightarrow> capacities \<Rightarrow> assignments \<Rightarrow> error + (capacities \<times> assignments)" where
  "init_tracking [] mentor_capacities mentor_assignments =
     Inr (mentor_capacities, mentor_assignments)"
| "init_tracking (mentor # rest) mentor_capacities mentor_assignments =
     (if py_truthy (get mentor ''willing_to_be_mentor'') then
        (case py_gt_zero (capacity_of mentor) of
           Inl e \<Rightarrow> Inl e
         | Inr positive \<Rightarrow>
             (if positive then
                (case hash_key (get mentor ''id'') of
                   Inl e \<Rightarrow> Inl e
                 | Inr k \<Rightarrow>
                     init_tracking rest (AList.update k (capacity_of mentor) mentor_capacities)
                       (AList.update k [] mentor_assignments))
              else init_tracking rest mentor_capacities mentor_assignments))
      else init_tracking rest mentor_capacities mentor_assignments)"

text \<open>
  The inner loop over \<^verbatim>\<open>range(len(mentees))\<close> for one mentor column: it keeps the best index
  and score so far, starting from \<^verbatim>\<open>None\<close> and \<^verbatim>\<open>-1.0\<close>, and replaces them on a strictly
  greater score.
\<close>

fun scan_mentees ::
  "real ndarray \<Rightarrow> nat \<Rightarrow> nat list \<Rightarrow> nat option \<Rightarrow> real \<Rightarrow> error + (nat option \<times> real)" where
  "scan_mentees similarity_matrix mentor_idx [] best_mentee_idx best_similarity =
     Inr (best_mentee_idx, best_similarity)"
| "scan_mentees similarity_matrix mentor_idx (mentee_idx # rest) best_mentee_idx best_similarity =
     (case nd_get similarity_matrix mentee_idx mentor_idx of
        Inl e \<Rightarrow> Inl e
      | Inr similarity \<Rightarrow>
          (if similarity > best_similarity
           then scan_mentees similarity_matrix mentor_idx rest (Some mentee_idx) similarity
           else scan_mentees similarity_matrix mentor_idx rest best_mentee_idx best_similarity))"

text \<open>The assignment the second loop appends for the mentee it picked.\<close>

definition make_assignment :: "profile \<Rightarrow> real \<Rightarrow> assignment" where
  "make_assignment mentee best_similarity =
     \<lparr>mentee_id = py_or (get mentee ''student_id'') (get mentee ''id''),
      mentee_name = get_default mentee ''name'' (JStr ''Unknown''),
      mentee_email = get_default mentee ''email'' (JStr []),
      similarity_score = best_similarity\<rparr>"

text \<open>
  Second loop: for each mentor (with its index) whose id is in \<^verbatim>\<open>mentor_capacities\<close>, the best
  mentee is found and, when its score is greater than 0, appended to the list stored
  under the mentor's id.
\<close>

fun assign_top ::
  "profile list \<Rightarrow> real ndarray \<Rightarrow> capacities \<Rightarrow> nat \<Rightarrow> profile list \<Rightarrow> assignments \<Rightarrow>
   error + assignments" where
  "assign_top mentees' similarity_matrix mentor_capacities mentor_idx [] mentor_assignments =
     Inr mentor_assignments"
| "assign_top mentees' similarity_matrix mentor_capacities mentor_idx (mentor # rest)
       mentor_assignments =
     (case hash_key (get mentor ''id'') of
        Inl e \<Rightarrow> Inl e
      | Inr k \<Rightarrow>
          (if map_of mentor_capacities k = None
           then assign_top mentees' similarity_matrix mentor_capacities (Suc mentor_idx) rest
                  mentor_assignments
           else
             (case scan_mentees similarity_matrix mentor_idx [0..<length mentees'] None (- 1) of
                Inl e \<Rightarrow> Inl e
              | Inr (best_mentee_idx, best_similarity) \<Rightarrow>
                  (case best_mentee_idx of
                     None \<Rightarrow>
                       assign_top mentees' similarity_matrix mentor_capacities (Suc mentor_idx)
                         rest mentor_assignments
                   | Some b \<Rightarrow>
                       (if best_similarity > 0 then
                          (case map_of mentor_assignments k of
                             None \<Rightarrow> Inl KeyError
                           | Some assigned \<Rightarrow>
                               assign_top mentees' similarity_matrix mentor_capacities
                                 (Suc mentor_idx) rest
                                 (AList.update k
                                    (assigned @ [make_assignment (mentees' ! b) best_similarity])
                                    mentor_assignments))
                        else assign_top mentees' similarity_matrix mentor_capacities
                               (Suc mentor_idx) rest mentor_assignments)))))"

text \<open>The record the third loop stores for a mentor.\<close>

definition make_record :: "profile \<Rightarrow> assignment list \<Rightarrow> mentor_record" where
  "make_record mentor assigned =
     \<lparr>mentor_id = get mentor ''id'',
      mentor_name = get_default mentor ''name'' (JStr ''Unknown''),
      mentor_email = get_default mentor ''email'' (JStr []),
      capacity = py_or (get mentor ''mentor_capacity'') (JInt 0),
      assigned_count = length assigned,
      mentees = assigned\<rparr>"

text \<open>
  Third loop: a mentor whose id has a non-empty list in \<^verbatim>\<open>mentor_assignments\<close> gets a record
  under the key \<^verbatim>\<open>str(mentor_id)\<close>.
\<close>

fun format_output ::
  "assignments \<Rightarrow> profile list \<Rightarrow> (string \<times> mentor_record) list \<Rightarrow>
   error + (string \<times> mentor_record) list" where
  "format_output mentor_assignments [] result = Inr result"
| "format_output mentor_assignments (mentor # rest) result =
     (case hash_key (get mentor ''id'') of
        Inl e \<Rightarrow> Inl e
      | Inr k \<Rightarrow>
          (case map_of mentor_assignments k of
             None \<Rightarrow> format_output mentor_assignments rest result
           | Some assigned \<Rightarrow>
               (if length assigned > 0
                then format_output mentor_assignments rest
                       (AList.update (py_str (get mentor ''id'')) (make_record mentor assigned)
                          result)
                else format_output mentor_assignments rest result)))"

definition match_mentees_to_mentors ::
  "profile list \<Rightarrow> profile list \<Rightarrow> real ndarray \<Rightarrow> error + (string \<times> mentor_record) list" where
  "match_mentees_to_mentors mentors mentees' similarity_matrix =
     (case init_tracking mentors [] [] of
        Inl e \<Rightarrow> Inl e
      | Inr (mentor_capacities, mentor_assignments) \<Rightarrow>
          (case assign_top mentees' similarity_matrix mentor_capacities 0 mentors
                  mentor_assignments of
             Inl e \<Rightarrow> Inl e
           | Inr mentor_assignments \<Rightarrow> format_output mentor_assignments mentors []))"

section \<open>Eligibility filter and pipeline\<close>

text \<open>
  The mentor filter of \<^verbatim>\<open>perform_matching\<close>:
  \<^verbatim>\<open>mentor.get('willing_to_be_mentor') and (mentor.get('mentor_capacity') or 0) > 0\<close>. The
  comparison is evaluated only for a truthy flag, and raises on a capacity that is no number.
\<close>

fun filter_mentors :: "profile list \<Rightarrow> error + profile list" where
  "filter_mentors [] = Inr []"
| "filter_mentors (mentor # rest) =
     (if py_truthy (get mentor ''willing_to_be_mentor'') then
        (case py_gt_zero (py_or (get mentor ''mentor_capacity'') (JInt 0)) of
           Inl e \<Rightarrow> Inl e
         | Inr positive \<Rightarrow>
             (case filter_mentors rest of
                Inl e \<Rightarrow> Inl e
              | Inr kept \<Rightarrow> Inr (if positive then mentor # kept else kept)))
      else filter_mentors rest)"

text \<open>
  The two flags of the mentee filter:
  \<^verbatim>\<open>x is True or (isinstance(x, str) and x.lower() == 'true') or x == 1\<close>.
\<close>

definition has_interest :: "profile \<Rightarrow> bool" where
  "has_interest mentee =
     (let mentorship_interest = get mentee ''mentorship_interest''
      in mentorship_interest = JBool True
         \<or> (case mentorship_interest of JStr s \<Rightarrow> py_lower s = ''true'' | _ \<Rightarrow> False)
         \<or> (mentorship_interest = JInt 1 \<or> mentorship_interest = JBool True))"

definition is_paired :: "profile \<Rightarrow> bool" where
  "is_paired mentee =
     (let mentor_paired = get mentee ''mentor_paired''
      in mentor_paired = JBool True
         \<or> (case mentor_paired of JStr s \<Rightarrow> py_lower s = ''true'' | _ \<Rightarrow> False)
         \<or> (mentor_paired = JInt 1 \<or> mentor_paired = JBool True))"

definition filter_mentees :: "profile list \<Rightarrow> profile list" where
  "filter_mentees mentees_data = filter (\<lambda>mentee. has_interest mentee \<and> \<not> is_paired mentee) mentees_data"

text \<open>
  The library functions the pipeline calls, as parameters: \<^verbatim>\<open>json.loads\<close>, the exceptions
  of \<^verbatim>\<open>str\<close>, \<^verbatim>\<open>TfidfVectorizer(...).fit_transform(texts).toarray()\<close>, the same for
  \<^verbatim>\<open>CountVectorizer\<close>, and \<^verbatim>\<open>cosine_similarity\<close>.
\<close>

record library =
  json_loads :: "string \<Rightarrow> loads_result"
  str_raises :: "json \<Rightarrow> error option"
  tfidf_vectors :: "string list \<Rightarrow> error + real ndarray"
  count_vectors :: "string list \<Rightarrow> error + real ndarray"
  cosine_similarity :: "real ndarray \<Rightarrow> real ndarray \<Rightarrow> error + npfloat ndarray"

text \<open>
  The vectorization block of \<^verbatim>\<open>perform_matching\<close>: the placeholder text when every text is
  empty, zero vectors when no text is left after stripping, and the count vectorizer when
  the TF-IDF vectorizer raises \<^verbatim>\<open>ValueError\<close>.
\<close>

definition vectorize_all :: "library \<Rightarrow> string list \<Rightarrow> error + real ndarray" where
  "vectorize_all lib texts =
     (let all_texts = (if list_all (\<lambda>text. text = []) texts
                       then replicate (length texts) ''dummy text'' else texts);
          non_empty_texts = filter (\<lambda>text. py_strip text \<noteq> []) all_texts
      in if non_empty_texts = []
         then Inr \<lparr>nrows = length all_texts, ncols = 1, cell = (\<lambda>i j. 0)\<rparr>
         else (case tfidf_vectors lib all_texts of
                 Inr vectors \<Rightarrow> Inr vectors
               | Inl e \<Rightarrow> (if e = ValueError then count_vectors lib all_texts else Inl e)))"

text \<open>The row slices \<^verbatim>\<open>a[:n]\<close> and \<^verbatim>\<open>a[n:]\<close>.\<close>

definition rows_upto :: "nat \<Rightarrow> 'a ndarray \<Rightarrow> 'a ndarray" where
  "rows_upto n a = \<lparr>nrows = min n (nrows a), ncols = ncols a, cell = cell a\<rparr>"

definition rows_from :: "nat \<Rightarrow> 'a ndarray \<Rightarrow> 'a ndarray" where
  "rows_from n a = \<lparr>nrows = nrows a - n, ncols = ncols a, cell = (\<lambda>i j. cell a (i + n) j)\<rparr>"

text \<open>\<^verbatim>\<open>m.get('location', '') or ''\<close>.\<close>

definition location_of :: "profile \<Rightarrow> json" where
  "location_of m = py_or (get_default m ''location'' (JStr [])) (JStr [])"

text \<open>The logging line calls \<^verbatim>\<open>loc.strip()\<close> on every location: a value that is no string
  raises \<^verbatim>\<open>AttributeError\<close>.\<close>

fun is_str :: "json \<Rightarrow> bool" where
  "is_str (JStr s) = True"
| "is_str _ = False"

text \<open>\<^verbatim>\<open>sum(...)\<close> over the capacities: numbers add up, anything else raises \<^verbatim>\<open>TypeError\<close>.\<close>

fun py_sum :: "json list \<Rightarrow> error + int" where
  "py_sum [] = Inr 0"
| "py_sum (x # xs) =
     (case py_sum xs of
        Inl e \<Rightarrow> Inl e
      | Inr subtotal \<Rightarrow>
          (case x of
             JInt i \<Rightarrow> Inr (i + subtotal)
           | JBool b \<Rightarrow> Inr ((if b then 1 else 0) + subtotal)
           | _ \<Rightarrow> Inl TypeError))"

text \<open>The result document. The rounded \<^verbatim>\<open>utilization_rate\<close> (a float) is left out.\<close>

record statistics =
  total_mentors :: nat
  total_mentees :: nat
  total_mentees_assigned :: nat
  total_capacity :: int

record matching_result =
  success :: bool
  message :: string
  statistics :: "statistics option"
  matches :: "(string \<times> mentor_record) list"

text \<open>
  The blocks of \<^verbatim>\<open>perform_matching\<close> after the two emptiness checks. First the similarity
  matrix: texts, joint vectorization, the split into the mentor and the mentee block, the
  locations, and the combined scores with the weights 0.7 and 0.3.
\<close>

definition profile_texts ::
  "library \<Rightarrow> profile list \<Rightarrow> profile list \<Rightarrow> error + string list" where
  "profile_texts lib mentors mentees' =
     (case collect (map (\<lambda>m. extract_text_from_profile (json_loads lib) (str_raises lib) m False)
                     mentors) of
        Inl e \<Rightarrow> Inl e
      | Inr mentor_texts \<Rightarrow>
          (case collect (map (\<lambda>m. extract_text_from_profile (json_loads lib) (str_raises lib) m True)
                          mentees') of
             Inl e \<Rightarrow> Inl e
           | Inr mentee_texts \<Rightarrow> Inr (mentor_texts @ mentee_texts)))"

definition similarity_of ::
  "library \<Rightarrow> profile list \<Rightarrow> profile list \<Rightarrow> error + real ndarray" where
  "similarity_of lib mentors mentees' =
     (case profile_texts lib mentors mentees' of
        Inl e \<Rightarrow> Inl e
      | Inr all_texts \<Rightarrow>
          (case vectorize_all lib all_texts of
             Inl e \<Rightarrow> Inl e
           | Inr all_vectors \<Rightarrow>
               (let mentor_vectors = rows_upto (length mentors) all_vectors;
                    mentee_vectors = rows_from (length mentors) all_vectors;
                    mentor_locations = map location_of mentors;
                    mentee_locations = map location_of mentees'
                in if \<not> list_all is_str (mentor_locations @ mentee_locations)
                   then Inl AttributeError
                   else compute_similarity_scores (cosine_similarity lib) mentor_vectors
                          mentee_vectors mentor_locations mentee_locations 0.7 0.3)))"

text \<open>Then the statistics and the result document.\<close>

definition success_result ::
  "profile list \<Rightarrow> profile list \<Rightarrow> (string \<times> mentor_record) list \<Rightarrow> error + matching_result" where
  "success_result mentors mentees' matches' =
     (let assigned_total = sum_list (map (\<lambda>(k, m). length (mentees m)) matches')
      in case py_sum (map (\<lambda>m. py_or (get m ''mentor_capacity'') (JInt 0)) mentors) of
           Inl e \<Rightarrow> Inl e
         | Inr capacity_total \<Rightarrow>
             Inr \<lparr>success = True,
                  message = ''Successfully matched '' @ nat_digits assigned_total
                            @ '' mentees to mentors'',
                  statistics = Some \<lparr>total_mentors = length mentors,
                                     total_mentees = length mentees',
                                     total_mentees_assigned = assigned_total,
                                     total_capacity = capacity_total\<rparr>,
                  matches = matches'\<rparr>)"

definition no_mentors_message :: string where
  "no_mentors_message =
     ''No mentors available for matching (willing_to_be_mentor=true AND capacity>0)''"

definition no_mentees_message :: string where
  "no_mentees_message =
     ''No mentees available for matching (mentorship_interest=true AND mentor_paired=false)''"

definition perform_matching ::
  "library \<Rightarrow> profile list \<Rightarrow> profile list \<Rightarrow> error + matching_result" where
  "perform_matching lib mentors_data mentees_data =
     (case filter_mentors mentors_data of
        Inl e \<Rightarrow> Inl e
      | Inr mentors \<Rightarrow>
          (let mentees' = filter_mentees mentees_data
           in if mentors = [] then
                Inr \<lparr>success = False, message = no_mentors_message,
                     statistics = None, matches = []\<rparr>
              else if mentees' = [] then
                Inr \<lparr>success = False, message = no_mentees_message,
                     statistics = None, matches = []\<rparr>
              else
                (case similarity_of lib mentors mentees' of
                   Inl e \<Rightarrow> Inl e
                 | Inr similarity_matrix \<Rightarrow>
                     (case match_mentees_to_mentors mentors mentees' similarity_matrix of
                        Inl e \<Rightarrow> Inl e
                      | Inr matches' \<Rightarrow> success_result mentors mentees' matches'))))"

section \<open>Auxiliary notions for the proofs\<close>

text \<open>The condition of the first loop of the matcher, as a predicate on a mentor.\<close>

definition matcher_eligible :: "profile \<Rightarrow> bool" where
  "matcher_eligible mentor =
     (py_truthy (get mentor ''willing_to_be_mentor'')
      \<and> py_gt_zero (capacity_of mentor) = Inr True)"

text \<open>Every assignment stored in the tracking dictionary was built from a mentee of the list.\<close>

definition from_mentees :: "profile list \<Rightarrow> assignments \<Rightarrow> bool" where
  "from_mentees es asg =
     (\<forall>k assigned a. map_of asg k = Some assigned \<and> a \<in> set assigned
        \<longrightarrow> (\<exists>e\<in>set es. \<exists>s. a = make_assignment e s))"

text \<open>
  A stand-in for the library on concrete inputs: no resume string decodes, \<^verbatim>\<open>str\<close> never
  raises, every text gets the same one-dimensional vector, and the cosine of any two
  vectors is 1.
\<close>

definition unit_library :: library where
  "unit_library =
     \<lparr>json_loads = (\<lambda>s. DecodeError),
      str_raises = (\<lambda>x. None),
      tfidf_vectors = (\<lambda>texts. Inr \<lparr>nrows = length texts, ncols = 1, cell = (\<lambda>i j. 1)\<rparr>),
      count_vectors = (\<lambda>texts. Inl ValueError),
      cosine_similarity =
        (\<lambda>a b. Inr \<lparr>nrows = nrows a, ncols = nrows b, cell = (\<lambda>i j. Num 1)\<rparr>)\<rparr>"

text \<open>Profiles for concrete runs.\<close>

definition demo_mentors :: "profile list" where
  "demo_mentors =
     [[(''id'', JInt 1), (''willing_to_be_mentor'', JBool False), (''mentor_capacity'', JInt 3)],
      [(''id'', JInt 2), (''willing_to_be_mentor'', JBool True)],
      [(''id'', JInt 3), (''willing_to_be_mentor'', JBool True), (''mentor_capacity'', JInt 2),
       (''name'', JStr ''Ada'')]]"

definition demo_mentees :: "profile list" where
  "demo_mentees =
     [[(''id'', JInt 10), (''mentorship_interest'', JBool True), (''mentor_paired'', JStr ''True'')],
      [(''student_id'', JInt 11), (''mentorship_interest'', JStr ''TRUE''), (''email'', JStr ''b@x'')],
      [(''id'', JInt 12), (''mentorship_interest'', JInt 1), (''mentor_paired'', JBool False)]]"

text \<open>A mentor whose flag is the string "false", and a mentee in the same city.\<close>

definition false_mentor :: profile where
  "false_mentor =
     [(''id'', JInt 1), (''willing_to_be_mentor'', JStr ''false''), (''mentor_capacity'', JInt 1),
      (''location'', JStr ''Austin'')]"

definition austin_mentee :: profile where
  "austin_mentee =
     [(''id'', JInt 10), (''mentorship_interest'', JBool True), (''location'', JStr ''Austin'')]"

text \<open>
  Three eligible mentors, the first two with the same id, and scores for the three demo
  mentees (rows) against them (columns).
\<close>

definition twin_mentors :: "profile list" where
  "twin_mentors =
     [[(''id'', JInt 2), (''willing_to_be_mentor'', JBool True), (''mentor_capacity'', JInt 1)],
      [(''id'', JInt 2), (''willing_to_be_mentor'', JBool True), (''mentor_capacity'', JInt 4)],
      [(''id'', JInt 3), (''willing_to_be_mentor'', JBool True), (''mentor_capacity'', JInt 2),
       (''name'', JStr ''Ada'')]]"

definition twin_scores :: "real ndarray" where
  "twin_scores = nd_of_rows [[1 / 2, 1 / 2, 1 / 4], [0, 0, 1 / 2], [0, 0, 1 / 2]]"

section \<open>Auxiliary notions for the text extractor\<close>

text \<open>No two neighbouring characters are both white space.\<close>

fun no_double :: "string \<Rightarrow> bool" where
  "no_double (a # b # cs) = (\<not> (is_space a \<and> is_space b) \<and> no_double (b # cs))"
| "no_double _ = True"

text \<open>
  A space-normalized string: its only white-space character is the space, no two spaces
  are neighbours, and it neither starts nor ends with one.
\<close>

definition space_normalized :: "string \<Rightarrow> bool" where
  "space_normalized s =
     (list_all (\<lambda>c. is_space c \<longrightarrow> c = CHR '' '') s \<and> no_double s
      \<and> (s \<noteq> [] \<longrightarrow> \<not> is_space (hd s) \<and> \<not> is_space (last s)))"

text \<open>The fields the extractor reads as lists.\<close>

definition list_fields :: "string list" where
  "list_fields = [''skills'', ''projects'', ''experiences'', ''achievements'',
                  ''relevant_coursework'']"

fun is_nonempty_list :: "json \<Rightarrow> bool" where
  "is_nonempty_list (JList (x # xs)) = True"
| "is_nonempty_list _ = False"

text \<open>The string is rejected by the decoder, or decodes to something that is no object.\<close>

fun decodes_to_other :: "loads_result \<Rightarrow> bool" where
  "decodes_to_other (Decoded (JObj kvs)) = False"
| "decodes_to_other (Decoded v) = True"
| "decodes_to_other DecodeError = True"
| "decodes_to_other (Raised e) = False"

text \<open>
  When the extractor passes over the value of a field: a list field that is no non-empty
  list; a \<^verbatim>\<open>parsed_resume\<close> that is falsy, or neither an object nor a string that decodes
  to an object (a string on which the decoder raises another exception is not passed
  over: the exception leaves the extractor); any other field (the single-string fields
  \<^verbatim>\<open>mentor_preference\<close>, \<^verbatim>\<open>aspirations\<close> and \<^verbatim>\<open>major\<close>) that is falsy.
\<close>

definition field_skipped :: "(string \<Rightarrow> loads_result) \<Rightarrow> string \<Rightarrow> json \<Rightarrow> bool" where
  "field_skipped loads k v =
     (if k \<in> set list_fields then \<not> is_nonempty_list v
      else if k = ''parsed_resume'' then
        (case v of
           JObj kvs \<Rightarrow> kvs = []
         | JStr s \<Rightarrow> s = [] \<or> decodes_to_other (loads s)
         | _ \<Rightarrow> True)
      else \<not> py_truthy v)"

text \<open>
  The values the extractor hands to \<^verbatim>\<open>str\<close>: the truthy single-string fields, the items
  of the joined list fields, and the text fields of the resume object.
\<close>

definition scalar_arguments :: "profile \<Rightarrow> string \<Rightarrow> json list" where
  "scalar_arguments p key = (if py_truthy (get p key) then [get p key] else [])"

definition list_arguments :: "profile \<Rightarrow> string \<Rightarrow> json list" where
  "list_arguments p key = (case get p key of JList xs \<Rightarrow> xs | _ \<Rightarrow> [])"

definition resume_arguments :: "(string \<Rightarrow> loads_result) \<Rightarrow> profile \<Rightarrow> json list" where
  "resume_arguments loads p =
     (if py_truthy (get p ''parsed_resume'') then
        (case decode_resume loads (get p ''parsed_resume'') of
           Inr (JObj kvs) \<Rightarrow>
             concat (map (\<lambda>field. case map_of kvs field of None \<Rightarrow> [] | Some v \<Rightarrow> [v])
                       resume_text_fields)
         | _ \<Rightarrow> [])
      else [])"

definition str_arguments :: "(string \<Rightarrow> loads_result) \<Rightarrow> profile \<Rightarrow> bool \<Rightarrow> json list" where
  "str_arguments loads p is_student =
     (if is_student then scalar_arguments p ''mentor_preference'' else [])
     @ list_arguments p ''skills''
     @ scalar_arguments p ''aspirations''
     @ resume_arguments loads p
     @ list_arguments p ''achievements''
     @ scalar_arguments p ''major''
     @ list_arguments p ''relevant_coursework''"

text \<open>All the fields the extractor reads.\<close>

definition text_fields :: "string list" where
  "text_fields = ''mentor_preference'' # ''aspirations'' # ''major'' # ''parsed_resume''
                 # list_fields"

text \<open>
  A stand-in for \<^verbatim>\<open>json.loads\<close> on concrete inputs: on a string of more than 4300 non-zero
  decimal digits it raises \<^verbatim>\<open>ValueError\<close>, as the interpreter's default limit on the
  conversion of integer strings makes \<^verbatim>\<open>json.loads\<close> do; every other string it rejects
  with a decoding error.
\<close>

definition digit_limit_loads :: "string \<Rightarrow> loads_result" where
  "digit_limit_loads s =
     (if length s > 4300 \<and> list_all (\<lambda>c. c \<in> set ''123456789'') s
      then Raised ValueError else DecodeError)"

text \<open>
  A stand-in for the exceptions of \<^verbatim>\<open>str\<close> on concrete inputs: \<^verbatim>\<open>ValueError\<close> on a value that
  holds an integer of more than 4300 digits, the interpreter's default limit
  (\<^verbatim>\<open>sys.int_info.default_max_str_digits\<close>).
\<close>

definition default_max_str_digits :: nat where
  "default_max_str_digits = 4300"

fun within_digit_limit :: "json \<Rightarrow> bool"
  and items_within_limit :: "json list \<Rightarrow> bool"
  and members_within_limit :: "(string \<times> json) list \<Rightarrow> bool" where
  "within_digit_limit (JInt i) = (\<bar>i\<bar> < 10 ^ default_max_str_digits)"
| "within_digit_limit (JList xs) = items_within_limit xs"
| "within_digit_limit (JObj kvs) = members_within_limit kvs"
| "within_digit_limit JNull = True"
| "within_digit_limit (JBool b) = True"
| "within_digit_limit (JStr s) = True"
| "items_within_limit [] = True"
| "items_within_limit (x # xs) = (within_digit_limit x \<and> items_within_limit xs)"
| "members_within_limit [] = True"
| "members_within_limit ((k, v) # kvs) = (within_digit_limit v \<and> members_within_limit kvs)"

definition digit_limit_str :: "json \<Rightarrow> error option" where
  "digit_limit_str x = (if within_digit_limit x then None else Some ValueError)"

section \<open>Properties of the location scorer\<close>

lemma words_of_finite: "finite (words_of s)"
  by (simp add: words_of_def)

lemma words_of_Nil: "words_of [] = {}"
  by (simp add: words_of_def)

lemma jaccard_bounds:
  assumes "finite U" and "C \<subseteq> U" and "C \<noteq> {}"
  shows "0 < real (card C) / real (card U) * 0.5 \<and> real (card C) / real (card U) * 0.5 \<le> 0.5"
proof -
  have fc: "finite C" using assms(1,2) by (rule rev_finite_subset)
  then have c: "0 < card C" using assms(3) by (simp add: card_gt_0_iff)
  have le: "card C \<le> card U" using assms(1,2) by (simp add: card_mono)
  with c have u: "0 < card U" by linarith
  from c u have "0 < real (card C) / real (card U)" by simp
  moreover from le u have "real (card C) / real (card U) \<le> 1" by simp
  ultimately show ?thesis by simp
qed

text \<open>The chain of tests of \<^verbatim>\<open>compute_location_similarity\<close>, flattened.\<close>

lemma location_entry_eq:
  "location_entry e m =
     (let a = norm_of e; b = norm_of m; C = (words_of a \<inter> words_of b) - stop_words
      in if a = b then (if a = [] then 0 else 1)
         else if C = {} then 0
         else real (card C) / real (card (words_of a \<union> words_of b)) * 0.5)"
  unfolding location_entry_def Let_def
  by (auto simp: words_of_Nil)

text \<open>
  Claim C2, as the code has it. With \<open>a\<close>, \<open>b\<close> the normalized forms of the two locations,
  \<open>A\<close>, \<open>B\<close> their word sets and \<open>C\<close> the common words that are not stop words:
  the similarity is 0 exactly when a normalized form is empty, or the forms differ and
  \<open>C\<close> is empty; it is 1 exactly when the forms are equal and non-empty; otherwise it is
  \<open>|C| / |A \<union> B| * 0.5\<close>, which lies in (0, 0.5]. The numerator counts the common
  words left after the stop words are removed (not the whole intersection); the
  denominator is the union of the unfiltered word sets. Equal non-empty forms score 1
  even when all their words are stop words.
\<close>

theorem location_similarity_cases:
  "(let a = norm_of e; b = norm_of m; A = words_of a; B = words_of b;
        C = (A \<inter> B) - stop_words
    in (location_entry e m = 0 \<longleftrightarrow> a = [] \<or> b = [] \<or> (a \<noteq> b \<and> C = {}))
     \<and> (location_entry e m = 1 \<longleftrightarrow> a = b \<and> a \<noteq> [])
     \<and> (a \<noteq> [] \<and> b \<noteq> [] \<and> a \<noteq> b \<and> C \<noteq> {} \<longrightarrow>
          location_entry e m = real (card C) / real (card (A \<union> B)) * 0.5
          \<and> 0 < location_entry e m \<and> location_entry e m \<le> 0.5))"
proof -
  define a where "a = norm_of e"
  define b where "b = norm_of m"
  define C where "C = (words_of a \<inter> words_of b) - stop_words"
  define U where "U = words_of a \<union> words_of b"
  define j where "j = real (card C) / real (card U) * 0.5"
  have eq: "location_entry e m =
      (if a = b then (if a = [] then 0 else 1) else if C = {} then 0 else j)"
    by (simp add: location_entry_eq a_def b_def C_def U_def j_def Let_def)
  have fin: "finite U" by (simp add: U_def words_of_finite)
  have sub: "C \<subseteq> U" by (auto simp: C_def U_def)
  have jb: "C \<noteq> {} \<Longrightarrow> 0 < j \<and> j \<le> 0.5"
    unfolding j_def using jaccard_bounds [OF fin sub] by simp
  have empties: "a = [] \<Longrightarrow> C = {}" "b = [] \<Longrightarrow> C = {}"
    by (simp_all add: C_def words_of_Nil)
  have zero: "location_entry e m = 0 \<longleftrightarrow> a = [] \<or> b = [] \<or> (a \<noteq> b \<and> C = {})"
    using eq jb empties by (cases "a = b"; cases "a = []"; cases "C = {}") auto
  have one: "location_entry e m = 1 \<longleftrightarrow> a = b \<and> a \<noteq> []"
    using eq jb by (cases "a = b"; cases "a = []"; cases "C = {}") auto
  have part: "a \<noteq> [] \<and> b \<noteq> [] \<and> a \<noteq> b \<and> C \<noteq> {} \<longrightarrow>
      location_entry e m = j \<and> 0 < location_entry e m \<and> location_entry e m \<le> 0.5"
    using eq jb by auto
  show ?thesis
    using zero one part
    unfolding Let_def j_def U_def C_def a_def b_def
    by blast
qed

theorem location_similarity_cases_witness:
  "location_entry (JStr ''City of London'') (JStr ''Bank of London'') = 1 / 8
   \<and> 0 < location_entry (JStr ''City of London'') (JStr ''Bank of London'')
   \<and> location_entry (JStr ''City of London'') (JStr ''Bank of London'') \<le> 0.5"
proof -
  have a: "norm_of (JStr ''City of London'') = ''city of london''" by code_simp
  have b: "norm_of (JStr ''Bank of London'') = ''bank of london''" by code_simp
  have C: "(words_of ''city of london'' \<inter> words_of ''bank of london'') - stop_words
      = {''london''}"
    by code_simp
  have U: "card (words_of ''city of london'' \<union> words_of ''bank of london'') = 4"
    by code_simp
  have h: "''city of london'' \<noteq> [] \<and> ''bank of london'' \<noteq> []
      \<and> ''city of london'' \<noteq> ''bank of london'' \<and> {''london''} \<noteq> ({} :: string set)"
    by simp
  note t = location_similarity_cases [of "JStr ''City of London''" "JStr ''Bank of London''",
      unfolded Let_def a b C U]
  from t h have "location_entry (JStr ''City of London'') (JStr ''Bank of London'')
      = real (card {''london''}) / real 4 * 0.5
    \<and> 0 < location_entry (JStr ''City of London'') (JStr ''Bank of London'')
    \<and> location_entry (JStr ''City of London'') (JStr ''Bank of London'') \<le> 0.5"
    by blast
  then show ?thesis by simp
qed

text \<open>
  Claim C2 as stated fails. "City of London" against "Bank of London": the forms differ
  and share the words "of" and "london", of which "london" is no stop word, but the
  score is not \<open>|A \<inter> B| / |A \<union> B| * 0.5\<close> (that would be 1/4; the code gives 1/8).
  And "the" against "The": no common word is left after the stop words are removed,
  yet the score is not 0 (the forms are equal, so it is 1).
\<close>

theorem location_jaccard_counterexample:
  "norm_of (JStr ''City of London'') \<noteq> norm_of (JStr ''Bank of London'')
   \<and> (words_of (norm_of (JStr ''City of London'')) \<inter> words_of (norm_of (JStr ''Bank of London'')))
        - stop_words \<noteq> {}
   \<and> location_entry (JStr ''City of London'') (JStr ''Bank of London'')
       \<noteq> real (card (words_of (norm_of (JStr ''City of London''))
                        \<inter> words_of (norm_of (JStr ''Bank of London''))))
          / real (card (words_of (norm_of (JStr ''City of London''))
                        \<union> words_of (norm_of (JStr ''Bank of London'')))) * 0.5
   \<and> (words_of (norm_of (JStr ''the'')) \<inter> words_of (norm_of (JStr ''The''))) - stop_words = {}
   \<and> location_entry (JStr ''the'') (JStr ''The'') \<noteq> 0"
  by code_simp

text \<open>
  Claim C7, as the code has it. "NY" normalizes to "new york"; in "New York, NY" the
  abbreviation is expanded in place, giving "new york new york". The two forms differ, so
  the pair is no exact match; their word sets are both {new, york}, so the score is the
  partial-match ceiling 0.5.
\<close>

theorem ny_scenario_half:
  "normalize_location (JStr ''NY'') = ''new york''
   \<and> normalize_location (JStr ''New York, NY'') = ''new york new york''
   \<and> location_entry (JStr ''NY'') (JStr ''New York, NY'') = 1 / 2
   \<and> nd_get (compute_location_similarity [JStr ''New York, NY''] [JStr ''NY'']) 0 0
       = Inr (1 / 2)"
  by code_simp

text \<open>Claim C7 as stated fails: the location component of that pair is not 1.\<close>

theorem ny_scenario_counterexample:
  "location_entry (JStr ''NY'') (JStr ''New York, NY'') \<noteq> 1"
  by code_simp

section \<open>Properties of the score combiner\<close>


lemma austin_entry: "location_entry (JStr ''Austin'') (JStr ''Austin'') = 1"
  by code_simp








section \<open>Properties of the filters and the matcher\<close>



lemma filter_mentees_sound:
  "m \<in> set (filter_mentees ds) \<longleftrightarrow> m \<in> set ds \<and> has_interest m \<and> \<not> is_paired m"
  by (auto simp: filter_mentees_def)

lemma format_output_source:
  "format_output asg ms res = Inr res' \<Longrightarrow> map_of res' key = Some r \<Longrightarrow>
     map_of res key = Some r
     \<or> (\<exists>m\<in>set ms. \<exists>k assigned. key = py_str (get m ''id'') \<and> hash_key (get m ''id'') = Inr k
           \<and> map_of asg k = Some assigned \<and> assigned \<noteq> [] \<and> r = make_record m assigned)"
proof (induction ms arbitrary: res)
  case Nil
  then show ?case by simp
next
  case (Cons m ms)
  from Cons.prems(1) obtain k where k: "hash_key (get m ''id'') = Inr k"
    by (auto split: sum.splits)
  show ?case
  proof (cases "\<exists>assigned. map_of asg k = Some assigned \<and> assigned \<noteq> []")
    case False
    with Cons.prems(1) k have "format_output asg ms res = Inr res'"
      by (auto split: option.splits if_splits)
    from Cons.IH [OF this Cons.prems(2)] show ?thesis by auto
  next
    case True
    then obtain assigned where a: "map_of asg k = Some assigned" "assigned \<noteq> []" by blast
    with Cons.prems(1) k have
      "format_output asg ms (AList.update (py_str (get m ''id'')) (make_record m assigned) res)
         = Inr res'"
      by simp
    from Cons.IH [OF this Cons.prems(2)] show ?thesis
      using k a by (auto simp: update_conv' split: if_splits)
  qed
qed

lemma from_mentees_update:
  "from_mentees es asg \<Longrightarrow> (\<forall>a\<in>set assigned. \<exists>e\<in>set es. \<exists>s. a = make_assignment e s) \<Longrightarrow>
     from_mentees es (AList.update k assigned asg)"
  unfolding from_mentees_def by (auto simp: update_conv' split: if_splits)

lemma init_tracking_from_mentees:
  "init_tracking ms caps asg = Inr (caps', asg') \<Longrightarrow> from_mentees es asg \<Longrightarrow> from_mentees es asg'"
proof (induction ms arbitrary: caps asg)
  case Nil
  then show ?case by simp
next
  case (Cons m ms)
  show ?case
  proof (cases "py_truthy (get m ''willing_to_be_mentor'')
                \<and> py_gt_zero (capacity_of m) = Inr True")
    case False
    with Cons.prems(1) have "init_tracking ms caps asg = Inr (caps', asg')"
      by (auto split: if_splits sum.splits)
    from Cons.IH [OF this Cons.prems(2)] show ?thesis .
  next
    case True
    with Cons.prems(1) obtain k where
      "init_tracking ms (AList.update k (capacity_of m) caps) (AList.update k [] asg)
         = Inr (caps', asg')"
      by (auto split: sum.splits)
    moreover have "from_mentees es (AList.update k [] asg)"
      by (rule from_mentees_update [OF Cons.prems(2)]) simp
    ultimately show ?thesis by (rule Cons.IH)
  qed
qed

lemma scan_mentees_index:
  "scan_mentees M j idxs b s = Inr (Some b', s') \<Longrightarrow> b = Some b' \<or> b' \<in> set idxs"
  by (induction idxs arbitrary: b s) (auto split: sum.splits if_splits)

lemma assign_top_from_mentees:
  "assign_top es M caps idx ms asg = Inr asg' \<Longrightarrow> from_mentees es asg \<Longrightarrow> from_mentees es asg'"
proof (induction ms arbitrary: idx asg)
  case Nil
  then show ?case by simp
next
  case (Cons m ms)
  from Cons.prems(1) obtain k where k: "hash_key (get m ''id'') = Inr k"
    by (auto split: sum.splits)
  show ?case
  proof (cases "map_of caps k = None")
    case True
    with Cons.prems(1) k have "assign_top es M caps (Suc idx) ms asg = Inr asg'" by simp
    from Cons.IH [OF this Cons.prems(2)] show ?thesis .
  next
    case False
    with Cons.prems(1) k obtain bo s where
      sc: "scan_mentees M idx [0..<length es] None (- 1) = Inr (bo, s)"
      by (auto split: sum.splits)
    show ?thesis
    proof (cases "\<exists>b. bo = Some b \<and> s > 0")
      case nb: False
      with Cons.prems(1) k False sc have "assign_top es M caps (Suc idx) ms asg = Inr asg'"
        by (auto split: option.splits if_splits)
      from Cons.IH [OF this Cons.prems(2)] show ?thesis .
    next
      case True
      then obtain b where b: "bo = Some b" "s > 0" by blast
      with Cons.prems(1) k False sc obtain assigned where
        a: "map_of asg k = Some assigned"
        and rest: "assign_top es M caps (Suc idx) ms
             (AList.update k (assigned @ [make_assignment (es ! b) s]) asg) = Inr asg'"
        by (auto split: option.splits)
      from scan_mentees_index [of M idx "[0..<length es]" None "- 1" b s] sc b
      have "b < length es" by simp
      then have mem: "es ! b \<in> set es" by simp
      have old: "\<forall>a\<in>set assigned. \<exists>e\<in>set es. \<exists>s. a = make_assignment e s"
        using Cons.prems(2) a unfolding from_mentees_def by blast
      have "from_mentees es (AList.update k (assigned @ [make_assignment (es ! b) s]) asg)"
        by (rule from_mentees_update [OF Cons.prems(2)]) (use old mem in auto)
      from Cons.IH [OF rest this] show ?thesis .
    qed
  qed
qed

lemma match_source:
  assumes "match_mentees_to_mentors ms es M = Inr res" and "map_of res key = Some r"
  shows "\<exists>m\<in>set ms. key = py_str (get m ''id'') \<and> mentor_id r = get m ''id''
           \<and> mentor_name r = get_default m ''name'' (JStr ''Unknown'')
           \<and> mentor_email r = get_default m ''email'' (JStr [])
           \<and> mentees r \<noteq> [] \<and> assigned_count r = length (mentees r)
           \<and> (\<forall>a\<in>set (mentees r). \<exists>e\<in>set es. \<exists>s. a = make_assignment e s)"
proof -
  from assms(1) obtain caps asg0 asg where
    i: "init_tracking ms [] [] = Inr (caps, asg0)"
    and a: "assign_top es M caps 0 ms asg0 = Inr asg"
    and f: "format_output asg ms [] = Inr res"
    by (auto simp: match_mentees_to_mentors_def split: sum.splits prod.splits)
  have "from_mentees es []" by (simp add: from_mentees_def)
  from init_tracking_from_mentees [OF i this] have "from_mentees es asg0" .
  from assign_top_from_mentees [OF a this] have fm: "from_mentees es asg" .
  from format_output_source [OF f assms(2)] obtain m k assigned where
    m: "m \<in> set ms" "key = py_str (get m ''id'')" "map_of asg k = Some assigned"
       "assigned \<noteq> []" "r = make_record m assigned"
    by auto
  from fm m(3) have "\<forall>a\<in>set assigned. \<exists>e\<in>set es. \<exists>s. a = make_assignment e s"
    unfolding from_mentees_def by blast
  with m show ?thesis by (auto simp: make_record_def)
qed

lemma perform_matching_cases:
  assumes "perform_matching lib mentors_data mentees_data = Inr r"
  shows "\<exists>mentors. filter_mentors mentors_data = Inr mentors
          \<and> (matches r = []
             \<or> (\<exists>M. match_mentees_to_mentors mentors (filter_mentees mentees_data) M
                       = Inr (matches r)))"
proof -
  from assms obtain mentors where fm: "filter_mentors mentors_data = Inr mentors"
    by (auto simp: perform_matching_def split: sum.splits)
  show ?thesis
  proof (cases "mentors = [] \<or> filter_mentees mentees_data = []")
    case True
    with assms fm have "matches r = []"
      by (auto simp: perform_matching_def Let_def split: if_splits)
    with fm show ?thesis by simp
  next
    case False
    with assms fm obtain M ms' where
      "match_mentees_to_mentors mentors (filter_mentees mentees_data) M = Inr ms'"
      "success_result mentors (filter_mentees mentees_data) ms' = Inr r"
      by (auto simp: perform_matching_def Let_def split: sum.splits)
    moreover from this(2) have "matches r = ms'"
      by (auto simp: success_result_def Let_def split: sum.splits)
    ultimately show ?thesis using fm by auto
  qed
qed

section \<open>The three loops of the matcher\<close>

lemma scan_mentees_inv:
  "scan_mentees M j idxs b s = Inr (b', s') \<Longrightarrow>
     s \<le> s' \<and> (\<forall>i\<in>set idxs. cell M i j \<le> s')
     \<and> ((b', s') = (b, s)
        \<or> (\<exists>p<length idxs. b' = Some (idxs ! p) \<and> s' = cell M (idxs ! p) j \<and> s < s'
              \<and> (\<forall>q<p. cell M (idxs ! q) j < s')))"
proof (induction idxs arbitrary: b s)
  case Nil
  then show ?case by simp
next
  case (Cons i idxs)
  from Cons.prems have g: "nd_get M i j = Inr (cell M i j)"
    by (auto simp: nd_get_def split: if_splits sum.splits)
  show ?case
  proof (cases "cell M i j > s")
    case True
    with Cons.prems g have rec: "scan_mentees M j idxs (Some i) (cell M i j) = Inr (b', s')"
      by simp
    from Cons.IH [OF rec] have le: "cell M i j \<le> s'" and all: "\<forall>i\<in>set idxs. cell M i j \<le> s'"
      and alt: "(b', s') = (Some i, cell M i j)
        \<or> (\<exists>p<length idxs. b' = Some (idxs ! p) \<and> s' = cell M (idxs ! p) j \<and> cell M i j < s'
              \<and> (\<forall>q<p. cell M (idxs ! q) j < s'))"
      by auto
    from alt have "\<exists>p<length (i # idxs). b' = Some ((i # idxs) ! p) \<and> s' = cell M ((i # idxs) ! p) j
        \<and> s < s' \<and> (\<forall>q<p. cell M ((i # idxs) ! q) j < s')"
    proof
      assume "(b', s') = (Some i, cell M i j)"
      with True show ?thesis by (intro exI [of _ 0]) simp
    next
      assume "\<exists>p<length idxs. b' = Some (idxs ! p) \<and> s' = cell M (idxs ! p) j \<and> cell M i j < s'
              \<and> (\<forall>q<p. cell M (idxs ! q) j < s')"
      then obtain p where p: "p < length idxs" "b' = Some (idxs ! p)" "s' = cell M (idxs ! p) j"
        "cell M i j < s'" "\<forall>q<p. cell M (idxs ! q) j < s'" by blast
      have "\<forall>q<Suc p. cell M ((i # idxs) ! q) j < s'"
        using p(4,5) by (auto simp: less_Suc_eq_0_disj)
      with p True show ?thesis by (intro exI [of _ "Suc p"]) auto
    qed
    with le all True show ?thesis by auto
  next
    case False
    with Cons.prems g have rec: "scan_mentees M j idxs b s = Inr (b', s')" by simp
    from Cons.IH [OF rec] have le: "s \<le> s'" and all: "\<forall>i\<in>set idxs. cell M i j \<le> s'"
      and alt: "(b', s') = (b, s)
        \<or> (\<exists>p<length idxs. b' = Some (idxs ! p) \<and> s' = cell M (idxs ! p) j \<and> s < s'
              \<and> (\<forall>q<p. cell M (idxs ! q) j < s'))"
      by auto
    from alt have "(b', s') = (b, s) \<or> (\<exists>p<length (i # idxs). b' = Some ((i # idxs) ! p)
        \<and> s' = cell M ((i # idxs) ! p) j
        \<and> s < s' \<and> (\<forall>q<p. cell M ((i # idxs) ! q) j < s'))"
    proof
      assume "(b', s') = (b, s)" then show ?thesis by simp
    next
      assume "\<exists>p<length idxs. b' = Some (idxs ! p) \<and> s' = cell M (idxs ! p) j \<and> s < s'
              \<and> (\<forall>q<p. cell M (idxs ! q) j < s')"
      then obtain p where p: "p < length idxs" "b' = Some (idxs ! p)" "s' = cell M (idxs ! p) j"
        "s < s'" "\<forall>q<p. cell M (idxs ! q) j < s'" by blast
      have "\<forall>q<Suc p. cell M ((i # idxs) ! q) j < s'"
        using p(4,5) False by (auto simp: less_Suc_eq_0_disj)
      with p have "\<exists>p<length (i # idxs). b' = Some ((i # idxs) ! p)
        \<and> s' = cell M ((i # idxs) ! p) j
        \<and> s < s' \<and> (\<forall>q<p. cell M ((i # idxs) ! q) j < s')"
        by (intro exI [of _ "Suc p"]) auto
      then show ?thesis ..
    qed
    with le all False show ?thesis by auto
  qed
qed

text \<open>The scan over all mentees: the outcome in terms of the column of the matrix.\<close>

lemma scan_all:
  assumes "scan_mentees M j [0..<n] None (- 1) = Inr (bo, s)"
  shows "(\<exists>i<n. 0 < cell M i j) \<Longrightarrow>
           \<exists>b<n. bo = Some b \<and> s = cell M b j \<and> 0 < s
                 \<and> (\<forall>i<n. cell M i j \<le> cell M b j) \<and> (\<forall>i<b. cell M i j < cell M b j)"
    and "\<not> (\<exists>i<n. 0 < cell M i j) \<Longrightarrow> \<not> (\<exists>b. bo = Some b \<and> 0 < s)"
proof -
  from scan_mentees_inv [OF assms] have all: "\<forall>i<n. cell M i j \<le> s"
    and alt: "(bo, s) = (None, - 1)
       \<or> (\<exists>p<n. bo = Some p \<and> s = cell M p j \<and> - 1 < s \<and> (\<forall>q<p. cell M q j < s))"
    by auto
  {
    assume "\<exists>i<n. 0 < cell M i j"
    then obtain i where i: "i < n" "0 < cell M i j" by blast
    with all have pos: "0 < s" by force
    with alt obtain p where p: "p < n" "bo = Some p" "s = cell M p j" "\<forall>q<p. cell M q j < s"
      by auto
    from all p(3) have "\<forall>i<n. cell M i j \<le> cell M p j" by simp
    moreover from p(3,4) have "\<forall>i<p. cell M i j < cell M p j" by simp
    ultimately show "\<exists>b<n. bo = Some b \<and> s = cell M b j \<and> 0 < s
                 \<and> (\<forall>i<n. cell M i j \<le> cell M b j) \<and> (\<forall>i<b. cell M i j < cell M b j)"
      using p(1,2,3) pos by blast
  }
  {
    assume no: "\<not> (\<exists>i<n. 0 < cell M i j)"
    show "\<not> (\<exists>b. bo = Some b \<and> 0 < s)"
    proof
      assume "\<exists>b. bo = Some b \<and> 0 < s"
      then obtain b where b: "bo = Some b" "0 < s" by blast
      with alt obtain p where "p < n" "s = cell M p j" by auto
      with b(2) no show False by blast
    qed
  }
qed

lemma init_tracking_maps:
  "init_tracking ms caps asg = Inr (caps', asg') \<Longrightarrow>
     map_of asg' k =
       (if \<exists>m\<in>set ms. matcher_eligible m \<and> hash_key (get m ''id'') = Inr k
        then Some [] else map_of asg k)
     \<and> (map_of caps' k \<noteq> None \<longleftrightarrow>
          (\<exists>m\<in>set ms. matcher_eligible m \<and> hash_key (get m ''id'') = Inr k)
          \<or> map_of caps k \<noteq> None)"
proof (induction ms arbitrary: caps asg)
  case Nil
  then show ?case by simp
next
  case (Cons m ms)
  show ?case
  proof (cases "matcher_eligible m")
    case False
    with Cons.prems have "init_tracking ms caps asg = Inr (caps', asg')"
      by (auto simp: matcher_eligible_def split: if_splits sum.splits)
    from Cons.IH [OF this] False show ?thesis by auto
  next
    case True
    with Cons.prems obtain k0 where k0: "hash_key (get m ''id'') = Inr k0"
      and rest: "init_tracking ms (AList.update k0 (capacity_of m) caps) (AList.update k0 [] asg)
         = Inr (caps', asg')"
      by (auto simp: matcher_eligible_def split: sum.splits)
    from Cons.IH [OF rest] True k0 show ?thesis
      by (auto simp: update_conv')
  qed
qed

lemma assign_top_hashable:
  "assign_top es M caps idx ms asg = Inr asg' \<Longrightarrow> m \<in> set ms \<Longrightarrow>
     \<exists>k. hash_key (get m ''id'') = Inr k"
proof (induction ms arbitrary: idx asg)
  case Nil
  then show ?case by simp
next
  case (Cons x ms)
  from Cons.prems(1) obtain k where k: "hash_key (get x ''id'') = Inr k"
    by (auto split: sum.splits)
  show ?case
  proof (cases "m = x")
    case True
    with k show ?thesis by blast
  next
    case False
    with Cons.prems(2) have mem: "m \<in> set ms" by simp
    from Cons.prems(1) k obtain idx' asg1 where "assign_top es M caps idx' ms asg1 = Inr asg'"
      by (auto split: sum.splits option.splits if_splits prod.splits)
    from Cons.IH [OF this mem] show ?thesis .
  qed
qed

text \<open>One step of the second loop, for the mentor at the head of the list.\<close>

lemma assign_top_step:
  assumes "assign_top es M caps idx (m # ms) asg = Inr asg'"
    and "hash_key (get m ''id'') = Inr k"
  shows "\<exists>asg1. assign_top es M caps (Suc idx) ms asg1 = Inr asg'
           \<and> (\<forall>k'. k' \<noteq> k \<longrightarrow> map_of asg1 k' = map_of asg k')
           \<and> (map_of caps k = None \<longrightarrow> asg1 = asg)
           \<and> (map_of caps k \<noteq> None \<longrightarrow>
                (\<exists>bo s. scan_mentees M idx [0..<length es] None (- 1) = Inr (bo, s)
                   \<and> (case bo of
                        None \<Rightarrow> asg1 = asg
                      | Some b \<Rightarrow>
                          if 0 < s
                          then \<exists>assigned. map_of asg k = Some assigned
                                 \<and> map_of asg1 k = Some (assigned @ [make_assignment (es ! b) s])
                          else asg1 = asg)))"
proof (cases "map_of caps k = None")
  case True
  with assms show ?thesis by auto
next
  case False
  with assms obtain bo s where
    sc: "scan_mentees M idx [0..<length es] None (- 1) = Inr (bo, s)"
    by (auto split: sum.splits)
  show ?thesis
  proof (cases "\<exists>b. bo = Some b \<and> 0 < s")
    case nb: False
    with assms False sc have "assign_top es M caps (Suc idx) ms asg = Inr asg'"
      by (auto split: option.splits if_splits)
    with False sc nb show ?thesis
      by (intro exI [of _ asg]) (auto split: option.splits)
  next
    case True
    then obtain b where b: "bo = Some b" "0 < s" by blast
    with assms False sc obtain assigned where
      a: "map_of asg k = Some assigned"
      and rest: "assign_top es M caps (Suc idx) ms
           (AList.update k (assigned @ [make_assignment (es ! b) s]) asg) = Inr asg'"
      by (auto split: option.splits)
    show ?thesis
      using False sc b a rest
      by (intro exI [of _ "AList.update k (assigned @ [make_assignment (es ! b) s]) asg"])
         (auto simp: update_conv')
  qed
qed

lemma assign_top_frame:
  "assign_top es M caps idx ms asg = Inr asg' \<Longrightarrow>
     (\<forall>m\<in>set ms. hash_key (get m ''id'') \<noteq> Inr k) \<Longrightarrow> map_of asg' k = map_of asg k"
proof (induction ms arbitrary: idx asg)
  case Nil
  then show ?case by simp
next
  case (Cons m ms)
  from Cons.prems(1) obtain k0 where k0: "hash_key (get m ''id'') = Inr k0"
    by (auto split: sum.splits)
  with Cons.prems(2) have ne: "k \<noteq> k0" by auto
  from assign_top_step [OF Cons.prems(1) k0] obtain asg1 where
    rest: "assign_top es M caps (Suc idx) ms asg1 = Inr asg'"
    and same: "\<forall>k'. k' \<noteq> k0 \<longrightarrow> map_of asg1 k' = map_of asg k'"
    by blast
  from Cons.IH [OF rest] Cons.prems(2) have "map_of asg' k = map_of asg1 k" by simp
  with same ne show ?case by simp
qed

text \<open>The second loop at a mentor whose key no other mentor of the list has.\<close>

lemma assign_top_nth:
  "assign_top es M caps idx ms asg = Inr asg' \<Longrightarrow> p < length ms \<Longrightarrow>
   hash_key (get (ms ! p) ''id'') = Inr k \<Longrightarrow>
   (\<forall>q<length ms. q \<noteq> p \<longrightarrow> hash_key (get (ms ! q) ''id'') \<noteq> Inr k) \<Longrightarrow>
   map_of caps k \<noteq> None \<Longrightarrow> map_of asg k = Some assigned \<Longrightarrow>
     \<exists>bo s. scan_mentees M (idx + p) [0..<length es] None (- 1) = Inr (bo, s)
       \<and> map_of asg' k =
           Some (case bo of
                   None \<Rightarrow> assigned
                 | Some b \<Rightarrow> if 0 < s then assigned @ [make_assignment (es ! b) s] else assigned)"
proof (induction ms arbitrary: idx asg p)
  case Nil
  then show ?case by simp
next
  case (Cons m ms)
  show ?case
  proof (cases p)
    case 0
    with Cons.prems(3) have k: "hash_key (get m ''id'') = Inr k" by simp
    from assign_top_step [OF Cons.prems(1) k] Cons.prems(5) obtain asg1 bo s where
      rest: "assign_top es M caps (Suc idx) ms asg1 = Inr asg'"
      and sc: "scan_mentees M idx [0..<length es] None (- 1) = Inr (bo, s)"
      and st: "(case bo of
                  None \<Rightarrow> asg1 = asg
                | Some b \<Rightarrow>
                    if 0 < s
                    then \<exists>assigned. map_of asg k = Some assigned
                           \<and> map_of asg1 k = Some (assigned @ [make_assignment (es ! b) s])
                    else asg1 = asg)"
      by blast
    have others: "\<forall>x\<in>set ms. hash_key (get x ''id'') \<noteq> Inr k"
    proof
      fix x assume "x \<in> set ms"
      then obtain q where "q < length ms" "ms ! q = x" by (auto simp: in_set_conv_nth)
      with Cons.prems(4) [rule_format, of "Suc q"] 0 show "hash_key (get x ''id'') \<noteq> Inr k"
        by auto
    qed
    from assign_top_frame [OF rest others] have "map_of asg' k = map_of asg1 k" .
    with st Cons.prems(6) sc 0 show ?thesis
      by (auto split: option.splits if_splits)
  next
    case (Suc p')
    from assign_top_hashable [OF Cons.prems(1), of m] obtain k0 where
      k0: "hash_key (get m ''id'') = Inr k0" by auto
    from Cons.prems(4) [rule_format, of 0] Suc k0 have ne: "k \<noteq> k0" by auto
    from assign_top_step [OF Cons.prems(1) k0] obtain asg1 where
      rest: "assign_top es M caps (Suc idx) ms asg1 = Inr asg'"
      and same: "\<forall>k'. k' \<noteq> k0 \<longrightarrow> map_of asg1 k' = map_of asg k'"
      by blast
    from same ne Cons.prems(6) have a1: "map_of asg1 k = Some assigned" by simp
    have p': "p' < length ms" using Cons.prems(2) Suc by simp
    have kp: "hash_key (get (ms ! p') ''id'') = Inr k" using Cons.prems(3) Suc by simp
    have oth: "\<forall>q<length ms. q \<noteq> p' \<longrightarrow> hash_key (get (ms ! q) ''id'') \<noteq> Inr k"
    proof (intro allI impI)
      fix q assume "q < length ms" "q \<noteq> p'"
      with Cons.prems(4) [rule_format, of "Suc q"] Suc
      show "hash_key (get (ms ! q) ''id'') \<noteq> Inr k" by auto
    qed
    from Cons.IH [OF rest p' kp oth Cons.prems(5) a1] Suc show ?thesis by simp
  qed
qed

lemma format_output_frame:
  "format_output asg ms res = Inr res' \<Longrightarrow>
     (\<forall>m\<in>set ms. py_str (get m ''id'') \<noteq> key) \<Longrightarrow> map_of res' key = map_of res key"
proof (induction ms arbitrary: res)
  case Nil
  then show ?case by simp
next
  case (Cons m ms)
  from Cons.prems(1) obtain res1 where
    rest: "format_output asg ms res1 = Inr res'"
    and r1: "res1 = res \<or> (\<exists>r. res1 = AList.update (py_str (get m ''id'')) r res)"
    by (auto split: sum.splits option.splits if_splits)
  from Cons.IH [OF rest] Cons.prems(2) have "map_of res' key = map_of res1 key" by simp
  with r1 Cons.prems(2) show ?case by (auto simp: update_conv')
qed

text \<open>The third loop at a mentor whose result key no other mentor of the list has.\<close>

lemma format_output_nth:
  "format_output asg ms res = Inr res' \<Longrightarrow> p < length ms \<Longrightarrow>
   hash_key (get (ms ! p) ''id'') = Inr k \<Longrightarrow>
   (\<forall>q<length ms. q \<noteq> p \<longrightarrow> py_str (get (ms ! q) ''id'') \<noteq> py_str (get (ms ! p) ''id'')) \<Longrightarrow>
   map_of res (py_str (get (ms ! p) ''id'')) = None \<Longrightarrow>
     map_of res' (py_str (get (ms ! p) ''id'')) =
       (case map_of asg k of
          None \<Rightarrow> None
        | Some assigned \<Rightarrow> if assigned \<noteq> [] then Some (make_record (ms ! p) assigned) else None)"
proof (induction ms arbitrary: res p)
  case Nil
  then show ?case by simp
next
  case (Cons m ms)
  show ?case
  proof (cases p)
    case 0
    have others: "\<forall>x\<in>set ms. py_str (get x ''id'') \<noteq> py_str (get m ''id'')"
    proof
      fix x assume "x \<in> set ms"
      then obtain q where "q < length ms" "ms ! q = x" by (auto simp: in_set_conv_nth)
      with Cons.prems(4) [rule_format, of "Suc q"] 0
      show "py_str (get x ''id'') \<noteq> py_str (get m ''id'')" by auto
    qed
    from Cons.prems(3) 0 have k: "hash_key (get m ''id'') = Inr k" by simp
    show ?thesis
    proof (cases "\<exists>assigned. map_of asg k = Some assigned \<and> assigned \<noteq> []")
      case True
      then obtain assigned where a: "map_of asg k = Some assigned" "assigned \<noteq> []" by blast
      with Cons.prems(1) k have rest:
        "format_output asg ms (AList.update (py_str (get m ''id'')) (make_record m assigned) res)
           = Inr res'"
        by simp
      from format_output_frame [OF rest others] a 0 show ?thesis
        by (simp add: update_conv')
    next
      case False
      with Cons.prems(1) k have rest: "format_output asg ms res = Inr res'"
        by (auto split: option.splits if_splits)
      from format_output_frame [OF rest others] False Cons.prems(5) 0 show ?thesis
        by (auto split: option.splits)
    qed
  next
    case (Suc p')
    from Cons.prems(1) obtain res1 where
      rest: "format_output asg ms res1 = Inr res'"
      and r1: "res1 = res \<or> (\<exists>r. res1 = AList.update (py_str (get m ''id'')) r res)"
      by (auto split: sum.splits option.splits if_splits)
    from Cons.prems(4) [rule_format, of 0] Suc
    have ne: "py_str (get m ''id'') \<noteq> py_str (get (ms ! p') ''id'')" by auto
    with r1 Cons.prems(5) Suc have n1: "map_of res1 (py_str (get (ms ! p') ''id'')) = None"
      by (auto simp: update_conv')
    have p': "p' < length ms" using Cons.prems(2) Suc by simp
    have kp: "hash_key (get (ms ! p') ''id'') = Inr k" using Cons.prems(3) Suc by simp
    have oth: "\<forall>q<length ms. q \<noteq> p' \<longrightarrow>
        py_str (get (ms ! q) ''id'') \<noteq> py_str (get (ms ! p') ''id'')"
    proof (intro allI impI)
      fix q assume "q < length ms" "q \<noteq> p'"
      with Cons.prems(4) [rule_format, of "Suc q"] Suc
      show "py_str (get (ms ! q) ''id'') \<noteq> py_str (get (ms ! p') ''id'')" by auto
    qed
    from Cons.IH [OF rest p' kp oth n1] show ?thesis unfolding Suc
      by (simp split: option.splits)
  qed
qed

text \<open>
  Claim C1, as the code has it. For a run of the matcher that returns, and for every
  eligible mentor, at column \<open>j\<close>, whose id no other mentor of the list shares, neither as
  dictionary key (equal ids, \<^verbatim>\<open>True\<close> and 1 being one key) nor as result key (the \<^verbatim>\<open>str\<close> of
  the id, which is the same for 1 and the string "1"): if some mentee scores above 0, the
  result holds under the mentor's key a record with exactly one assignment, for the
  mentee \<open>b\<close> with the highest score of the column that comes first in the list (every
  earlier mentee scores strictly less); its mentee identity is \<^verbatim>\<open>student_id\<close> when that is
  present and truthy and \<^verbatim>\<open>id\<close> otherwise, its name defaults to "Unknown" and its email to
  the empty string when absent, and its score is the best score. If no mentee scores
  above 0, the mentor's key is not in the result. The other mentors may share ids among
  themselves.
\<close>

theorem top_match_per_mentor:
  assumes run: "match_mentees_to_mentors mentors mentees' M = Inr res"
    and j: "j < length mentors"
    and lk: "\<forall>q<length mentors. q \<noteq> j \<longrightarrow>
               hash_key (get (mentors ! q) ''id'') \<noteq> hash_key (get (mentors ! j) ''id'')"
    and ls: "\<forall>q<length mentors. q \<noteq> j \<longrightarrow>
               py_str (get (mentors ! q) ''id'') \<noteq> py_str (get (mentors ! j) ''id'')"
    and el: "matcher_eligible (mentors ! j)"
  shows "((\<exists>i<length mentees'. 0 < cell M i j) \<longrightarrow>
            (\<exists>b<length mentees'.
               (\<forall>i<length mentees'. cell M i j \<le> cell M b j)
               \<and> (\<forall>i<b. cell M i j < cell M b j)
               \<and> (\<exists>entry. map_of res (py_str (get (mentors ! j) ''id'')) = Some entry
                    \<and> mentor_id entry = get (mentors ! j) ''id''
                    \<and> assigned_count entry = 1
                    \<and> mentees entry =
                        [\<lparr>mentee_id = py_or (get (mentees' ! b) ''student_id'')
                                             (get (mentees' ! b) ''id''),
                          mentee_name = get_default (mentees' ! b) ''name'' (JStr ''Unknown''),
                          mentee_email = get_default (mentees' ! b) ''email'' (JStr []),
                          similarity_score = cell M b j\<rparr>])))
       \<and> (\<not> (\<exists>i<length mentees'. 0 < cell M i j) \<longrightarrow>
            map_of res (py_str (get (mentors ! j) ''id'')) = None)"
proof -
  let ?m = "mentors ! j"
  let ?key = "py_str (get ?m ''id'')"
  let ?n = "length mentees'"
  from run obtain caps asg0 asg where
    i: "init_tracking mentors [] [] = Inr (caps, asg0)"
    and a: "assign_top mentees' M caps 0 mentors asg0 = Inr asg"
    and f: "format_output asg mentors [] = Inr res"
    by (auto simp: match_mentees_to_mentors_def split: sum.splits prod.splits)
  from j have mem: "?m \<in> set mentors" by simp
  from assign_top_hashable [OF a mem] obtain k where k: "hash_key (get ?m ''id'') = Inr k"
    by blast
  from init_tracking_maps [OF i, of k] el k mem have a0: "map_of asg0 k = Some []"
    and c: "map_of caps k \<noteq> None"
    by auto
  have othk: "\<forall>q<length mentors. q \<noteq> j \<longrightarrow> hash_key (get (mentors ! q) ''id'') \<noteq> Inr k"
    using lk k by simp
  have oths: "\<forall>q<length mentors. q \<noteq> j \<longrightarrow> py_str (get (mentors ! q) ''id'') \<noteq> ?key"
    using ls by simp
  from assign_top_nth [OF a j k othk c a0] obtain bo s where
    sc: "scan_mentees M j [0..<?n] None (- 1) = Inr (bo, s)"
    and ak: "map_of asg k =
           Some (case bo of
                   None \<Rightarrow> []
                 | Some b \<Rightarrow> if 0 < s then [] @ [make_assignment (mentees' ! b) s] else [])"
    by auto
  have r0: "map_of ([] :: (string \<times> mentor_record) list) ?key = None" by simp
  note fo = format_output_nth [OF f j k oths r0]
  have pos: "\<exists>b<?n. (\<forall>i<?n. cell M i j \<le> cell M b j) \<and> (\<forall>i<b. cell M i j < cell M b j)
      \<and> map_of res ?key
          = Some (make_record ?m [make_assignment (mentees' ! b) (cell M b j)])"
    if "\<exists>i<?n. 0 < cell M i j"
  proof -
    from scan_all(1) [OF sc that] obtain b where b: "b < ?n" "bo = Some b" "s = cell M b j"
      "0 < s" "\<forall>i<?n. cell M i j \<le> cell M b j" "\<forall>i<b. cell M i j < cell M b j"
      by blast
    from ak b have "map_of asg k = Some [make_assignment (mentees' ! b) (cell M b j)]" by simp
    with fo have "map_of res ?key
        = Some (make_record ?m [make_assignment (mentees' ! b) (cell M b j)])" by simp
    with b show ?thesis by blast
  qed
  have neg: "map_of res ?key = None" if "\<not> (\<exists>i<?n. 0 < cell M i j)"
  proof -
    from scan_all(2) [OF sc that] ak have "map_of asg k = Some []"
      by (auto split: option.splits)
    with fo show ?thesis by simp
  qed
  show ?thesis
  proof (intro conjI impI)
    assume "\<exists>i<?n. 0 < cell M i j"
    from pos [OF this] obtain b where b: "b < ?n" "\<forall>i<?n. cell M i j \<le> cell M b j"
      "\<forall>i<b. cell M i j < cell M b j"
      "map_of res ?key = Some (make_record ?m [make_assignment (mentees' ! b) (cell M b j)])"
      by blast
    show "\<exists>b<?n. (\<forall>i<?n. cell M i j \<le> cell M b j) \<and> (\<forall>i<b. cell M i j < cell M b j)
        \<and> (\<exists>entry. map_of res ?key = Some entry \<and> mentor_id entry = get ?m ''id''
             \<and> assigned_count entry = 1
             \<and> mentees entry =
                 [\<lparr>mentee_id = py_or (get (mentees' ! b) ''student_id'') (get (mentees' ! b) ''id''),
                   mentee_name = get_default (mentees' ! b) ''name'' (JStr ''Unknown''),
                   mentee_email = get_default (mentees' ! b) ''email'' (JStr []),
                   similarity_score = cell M b j\<rparr>])"
      using b by (intro exI [of _ b]) (simp add: make_record_def make_assignment_def)
  next
    assume "\<not> (\<exists>i<?n. 0 < cell M i j)"
    from neg [OF this] show "map_of res ?key = None" .
  qed
qed

theorem top_match_per_mentor_witness:
  "(\<exists>b<length demo_mentees.
      (\<forall>i<length demo_mentees. cell twin_scores i 2 \<le> cell twin_scores b 2)
      \<and> (\<forall>i<b. cell twin_scores i 2 < cell twin_scores b 2)
      \<and> b = 1)
   \<and> (case match_mentees_to_mentors twin_mentors demo_mentees twin_scores of
         Inl e \<Rightarrow> []
       | Inr res \<Rightarrow> map (\<lambda>(key, entry). (key, assigned_count entry,
                                           map mentee_id (mentees entry),
                                           map similarity_score (mentees entry))) res)
      = [(''2'', 2, [JInt 10, JInt 10], [1 / 2, 1 / 2]), (''3'', 1, [JInt 11], [1 / 2])]"
proof -
  define res where "res =
    [(''2'', \<lparr>mentor_id = JInt 2, mentor_name = JStr ''Unknown'', mentor_email = JStr [],
             capacity = JInt 4, assigned_count = 2,
             mentees = [\<lparr>mentee_id = JInt 10, mentee_name = JStr ''Unknown'',
                         mentee_email = JStr [], similarity_score = 1 / 2\<rparr>,
                        \<lparr>mentee_id = JInt 10, mentee_name = JStr ''Unknown'',
                         mentee_email = JStr [], similarity_score = 1 / 2\<rparr>]\<rparr>),
     (''3'', \<lparr>mentor_id = JInt 3, mentor_name = JStr ''Ada'', mentor_email = JStr [],
             capacity = JInt 2, assigned_count = 1,
             mentees = [\<lparr>mentee_id = JInt 11, mentee_name = JStr ''Unknown'',
                         mentee_email = JStr ''b@x'', similarity_score = 1 / 2\<rparr>]\<rparr>)]"
  have run: "match_mentees_to_mentors twin_mentors demo_mentees twin_scores = Inr res"
    unfolding res_def by code_simp
  have len3: "length twin_mentors = 3" by code_simp
  have hk: "hash_key (get (twin_mentors ! 0) ''id'') = Inr (KInt 2)"
    "hash_key (get (twin_mentors ! 1) ''id'') = Inr (KInt 2)"
    "hash_key (get (twin_mentors ! 2) ''id'') = Inr (KInt 3)"
    by code_simp+
  have sk: "py_str (get (twin_mentors ! 0) ''id'') = ''2''"
    "py_str (get (twin_mentors ! 1) ''id'') = ''2''"
    "py_str (get (twin_mentors ! 2) ''id'') = ''3''"
    by code_simp+
  have j: "2 < length twin_mentors" by (simp add: len3)
  have lk: "\<forall>q<length twin_mentors. q \<noteq> 2 \<longrightarrow>
      hash_key (get (twin_mentors ! q) ''id'') \<noteq> hash_key (get (twin_mentors ! 2) ''id'')"
  proof (intro allI impI)
    fix q assume "q < length twin_mentors" "q \<noteq> 2"
    with len3 have "q = 0 \<or> q = 1" by auto
    with hk show "hash_key (get (twin_mentors ! q) ''id'')
        \<noteq> hash_key (get (twin_mentors ! 2) ''id'')"
      by auto
  qed
  have ls: "\<forall>q<length twin_mentors. q \<noteq> 2 \<longrightarrow>
      py_str (get (twin_mentors ! q) ''id'') \<noteq> py_str (get (twin_mentors ! 2) ''id'')"
  proof (intro allI impI)
    fix q assume "q < length twin_mentors" "q \<noteq> 2"
    with len3 have "q = 0 \<or> q = 1" by auto
    with sk show "py_str (get (twin_mentors ! q) ''id'')
        \<noteq> py_str (get (twin_mentors ! 2) ''id'')"
      by auto
  qed
  have el: "matcher_eligible (twin_mentors ! 2)" by code_simp
  have len: "length demo_mentees = 3" by code_simp
  have c: "cell twin_scores 0 2 = 1 / 4" "cell twin_scores 1 2 = 1 / 2"
    "cell twin_scores 2 2 = 1 / 2"
    by (simp_all add: twin_scores_def nd_of_rows_def)
  have ex: "\<exists>i<length demo_mentees. 0 < cell twin_scores i 2"
    unfolding len by (intro exI [of _ 0]) (simp add: c)
  note t = top_match_per_mentor [OF run j lk ls el, THEN conjunct1, rule_format, OF ex]
  from t obtain b where
    b: "b < length demo_mentees"
      "\<forall>i<length demo_mentees. cell twin_scores i 2 \<le> cell twin_scores b 2"
      "\<forall>i<b. cell twin_scores i 2 < cell twin_scores b 2"
    by (elim exE conjE)
  have b1: "b = 1"
  proof -
    from b(1) len have "b = 0 \<or> b = 1 \<or> b = 2" by auto
    then show ?thesis
    proof (elim disjE)
      assume "b = 0"
      with b(2) [rule_format, of 1] len c show ?thesis by simp
    next
      assume "b = 1" then show ?thesis .
    next
      assume "b = 2"
      with b(3) [rule_format, of 1] c show ?thesis by simp
    qed
  qed
  from b b1 have first: "\<exists>b<length demo_mentees.
      (\<forall>i<length demo_mentees. cell twin_scores i 2 \<le> cell twin_scores b 2)
      \<and> (\<forall>i<b. cell twin_scores i 2 < cell twin_scores b 2) \<and> b = 1"
    by (intro exI [of _ b] conjI)
  have second: "(case match_mentees_to_mentors twin_mentors demo_mentees twin_scores of
         Inl e \<Rightarrow> []
       | Inr res \<Rightarrow> map (\<lambda>(key, entry). (key, assigned_count entry,
                                           map mentee_id (mentees entry),
                                           map similarity_score (mentees entry))) res)
      = [(''2'', 2, [JInt 10, JInt 10], [1 / 2, 1 / 2]), (''3'', 1, [JInt 11], [1 / 2])]"
    unfolding run by (simp add: res_def)
  from first second show ?thesis by (rule conjI)
qed

text \<open>
  Claim C1 as stated fails. A mentee with \<^verbatim>\<open>student_id\<close> 0 and \<^verbatim>\<open>id\<close> 7 has a
  \<^verbatim>\<open>student_id\<close>, yet the assignment carries the \<^verbatim>\<open>id\<close>: the code takes
  \<^verbatim>\<open>student_id or id\<close>, so a falsy \<^verbatim>\<open>student_id\<close> (0, the empty string, null) gives way to the
  \<^verbatim>\<open>id\<close>. And two eligible mentors that share an id share one record, which then holds
  two assignments.
\<close>

theorem falsy_student_id_counterexample:
  "map_of [(''student_id'', JInt 0), (''id'', JInt 7)] ''student_id'' = Some (JInt 0)
   \<and> (case match_mentees_to_mentors
             [[(''id'', JInt 1), (''willing_to_be_mentor'', JBool True), (''mentor_capacity'', JInt 1)]]
             [[(''student_id'', JInt 0), (''id'', JInt 7)]] (nd_of_rows [[1 / 2]]) of
         Inl e \<Rightarrow> []
       | Inr res \<Rightarrow> map (\<lambda>(key, entry). (key, map mentee_id (mentees entry))) res)
      = [(''1'', [JInt 7])]
   \<and> (case match_mentees_to_mentors
             [[(''id'', JInt 1), (''willing_to_be_mentor'', JBool True), (''mentor_capacity'', JInt 1)],
              [(''id'', JBool True), (''willing_to_be_mentor'', JBool True), (''mentor_capacity'', JInt 1)]]
             [[(''id'', JInt 10)]] (nd_of_rows [[1 / 2, 1 / 2]]) of
         Inl e \<Rightarrow> []
       | Inr res \<Rightarrow> map (\<lambda>(key, entry). (key, assigned_count entry)) res)
      = [(''1'', 2), (''True'', 2)]"
  by code_simp

section \<open>Concrete runs of the pipeline\<close>

lemma false_mentor_filter: "filter_mentors [false_mentor] = Inr [false_mentor]"
  by code_simp

lemma austin_mentee_filter: "filter_mentees [austin_mentee] = [austin_mentee]"
  by code_simp

lemma false_mentor_text: "extract_text_from_profile jl se false_mentor False = Inr []"
  by (simp add: extract_text_from_profile_def text_parts_def mentor_preference_parts_def
      joined_parts_def record_parts_def scalar_parts_def resume_parts_def get_def
      false_mentor_def combine_parts_def py_strip_def collapse_ws_def)

lemma austin_mentee_text: "extract_text_from_profile jl se austin_mentee True = Inr []"
  by (simp add: extract_text_from_profile_def text_parts_def mentor_preference_parts_def
      joined_parts_def record_parts_def scalar_parts_def resume_parts_def get_def
      austin_mentee_def combine_parts_def py_strip_def collapse_ws_def)

lemma dummy_strip: "py_strip ''dummy text'' \<noteq> []"
  by code_simp

lemma demo_locations:
  "location_of false_mentor = JStr ''Austin''" "location_of austin_mentee = JStr ''Austin''"
  by code_simp+

lemma false_mentor_match:
  assumes "nrows M = 1" "ncols M = 1" "0 < cell M 0 0"
  shows "match_mentees_to_mentors [false_mentor] [austin_mentee] M
    = Inr [(''1'', make_record false_mentor [make_assignment austin_mentee (cell M 0 0)])]"
proof -
  have h: "hash_key (get false_mentor ''id'') = Inr (KInt 1)"
    "py_truthy (get false_mentor ''willing_to_be_mentor'')"
    "py_gt_zero (capacity_of false_mentor) = Inr True"
    "py_str (get false_mentor ''id'') = ''1''"
    by code_simp+
  show ?thesis
    using assms
    by (simp add: match_mentees_to_mentors_def h nd_get_def)
qed

lemma demo_run:
  "perform_matching unit_library demo_mentors demo_mentees
   = Inr \<lparr>success = True, message = ''Successfully matched 1 mentees to mentors'',
          statistics = Some \<lparr>total_mentors = 1, total_mentees = 2, total_mentees_assigned = 1,
                             total_capacity = 2\<rparr>,
          matches = [(''3'', \<lparr>mentor_id = JInt 3, mentor_name = JStr ''Ada'',
                              mentor_email = JStr [], capacity = JInt 2, assigned_count = 1,
                              mentees = [\<lparr>mentee_id = JInt 11, mentee_name = JStr ''Unknown'',
                                          mentee_email = JStr ''b@x'',
                                          similarity_score = 7 / 10\<rparr>]\<rparr>)]\<rparr>"
  by code_simp

lemma false_mentor_run:
  assumes v: "tfidf_vectors lib [''dummy text'', ''dummy text''] = Inr V"
    and c: "cosine_similarity lib (rows_from 1 V) (rows_upto 1 V) = Inr raw"
    and sh: "nrows raw = 1" "ncols raw = 1"
    and nn: "0 \<le> nan_to_num 0 1 0 (cell raw 0 0)"
  shows "\<exists>r. perform_matching lib [false_mentor] [austin_mentee] = Inr r \<and> success r
           \<and> map_of (matches r) ''1'' \<noteq> None"
proof -
  define x where "x = nan_to_num 0 1 0 (cell raw 0 0)"
  have tx: "profile_texts lib [false_mentor] [austin_mentee] = Inr [[], []]"
    by (simp add: profile_texts_def false_mentor_text austin_mentee_text)
  have vec: "vectorize_all lib [[], []] = Inr V"
    using v by (simp add: vectorize_all_def Let_def dummy_strip numeral_2_eq_2)
  define M where "M = \<lparr>nrows = 1, ncols = 1, cell = (\<lambda>i j :: nat. 7 / 10 * x + 3 / 10)\<rparr>"
  have "compute_similarity_scores (cosine_similarity lib) (rows_upto 1 V) (rows_from 1 V)
      [JStr ''Austin''] [JStr ''Austin''] 0.7 0.3 = Inr M"
    using c sh
    by (simp add: compute_similarity_scores_def Let_def nd_add_def nd_scale_def nd_map_def
        compute_location_similarity_def broadcast_dim_def stretch_def austin_entry M_def x_def)
  with vec tx have sim: "similarity_of lib [false_mentor] [austin_mentee] = Inr M"
    by (simp add: similarity_of_def Let_def demo_locations)
  have pos: "0 < cell M 0 0" using nn by (simp add: M_def x_def)
  have m: "match_mentees_to_mentors [false_mentor] [austin_mentee] M
    = Inr [(''1'', make_record false_mentor [make_assignment austin_mentee (cell M 0 0)])]"
    by (rule false_mentor_match) (use pos in \<open>simp_all add: M_def\<close>)
  have cap: "py_or (get false_mentor ''mentor_capacity'') (JInt 0) = JInt 1" by code_simp
  show ?thesis
    unfolding perform_matching_def false_mentor_filter austin_mentee_filter
    using sim m
    by (simp add: Let_def success_result_def cap)
qed



text \<open>
  Claim C4. Every assignment in every record of \<open>matches\<close> was built from a mentee of the
  input whose \<^verbatim>\<open>mentorship_interest\<close> is true under the tri-state rule and whose
  \<^verbatim>\<open>mentor_paired\<close> is not: a mentee that is paired, or without interest, is never assigned,
  whatever its scores. The tri-state rule holds for the boolean true, for a string that
  is "true" after lower-casing, and for the integer 1, and for nothing else.
\<close>

theorem assigned_mentees_are_eligible:
  assumes "perform_matching lib mentors_data mentees_data = Inr r"
    and "map_of (matches r) key = Some entry"
    and "a \<in> set (mentees entry)"
  shows "\<exists>e\<in>set mentees_data.
           has_interest e \<and> \<not> is_paired e
           \<and> (is_paired e \<longleftrightarrow>
                 get e ''mentor_paired'' = JBool True \<or> get e ''mentor_paired'' = JInt 1
                 \<or> (\<exists>s. get e ''mentor_paired'' = JStr s \<and> py_lower s = ''true''))
           \<and> (has_interest e \<longleftrightarrow>
                 get e ''mentorship_interest'' = JBool True
                 \<or> get e ''mentorship_interest'' = JInt 1
                 \<or> (\<exists>s. get e ''mentorship_interest'' = JStr s \<and> py_lower s = ''true''))
           \<and> mentee_id a = py_or (get e ''student_id'') (get e ''id'')
           \<and> mentee_name a = get_default e ''name'' (JStr ''Unknown'')
           \<and> mentee_email a = get_default e ''email'' (JStr [])"
proof -
  from perform_matching_cases [OF assms(1)] assms(2) obtain mentors M where
    mt: "match_mentees_to_mentors mentors (filter_mentees mentees_data) M = Inr (matches r)"
    by auto
  from match_source [OF mt assms(2)] assms(3) obtain e s where
    e: "e \<in> set (filter_mentees mentees_data)" "a = make_assignment e s"
    by blast
  from e(1) have el: "e \<in> set mentees_data" "has_interest e" "\<not> is_paired e"
    by (simp_all add: filter_mentees_sound)
  have p: "is_paired e \<longleftrightarrow>
      get e ''mentor_paired'' = JBool True \<or> get e ''mentor_paired'' = JInt 1
      \<or> (\<exists>s. get e ''mentor_paired'' = JStr s \<and> py_lower s = ''true'')"
    by (cases "get e ''mentor_paired''") (auto simp: is_paired_def Let_def)
  have i: "has_interest e \<longleftrightarrow>
      get e ''mentorship_interest'' = JBool True \<or> get e ''mentorship_interest'' = JInt 1
      \<or> (\<exists>s. get e ''mentorship_interest'' = JStr s \<and> py_lower s = ''true'')"
    by (cases "get e ''mentorship_interest''") (auto simp: has_interest_def Let_def)
  from el p i e(2) show ?thesis
    by (intro bexI [of _ e]) (simp_all add: make_assignment_def)
qed

theorem assigned_mentees_are_eligible_witness:
  "\<exists>e\<in>set demo_mentees.
     has_interest e \<and> \<not> is_paired e
     \<and> JInt 11 = py_or (get e ''student_id'') (get e ''id'')
     \<and> JStr ''Unknown'' = get_default e ''name'' (JStr ''Unknown'')
     \<and> JStr ''b@x'' = get_default e ''email'' (JStr [])"
proof -
  let ?a = "\<lparr>mentee_id = JInt 11, mentee_name = JStr ''Unknown'',
             mentee_email = JStr ''b@x'', similarity_score = 7 / 10\<rparr>"
  from assigned_mentees_are_eligible [OF demo_run, of "''3''" _ ?a]
  obtain e where "e \<in> set demo_mentees" "has_interest e" "\<not> is_paired e"
    "mentee_id ?a = py_or (get e ''student_id'') (get e ''id'')"
    "mentee_name ?a = get_default e ''name'' (JStr ''Unknown'')"
    "mentee_email ?a = get_default e ''email'' (JStr [])"
    by auto
  then show ?thesis by (intro bexI [of _ e]) simp_all
qed

text \<open>
  Claim C8. When the mentor filter yields its list and that list is empty, or the list of
  eligible mentees is empty, the pipeline returns (it does not raise) a result with
  \<open>success\<close> false, the message for the empty side (mentors first) and no matches; no
  similarity matrix is computed. The mentor filter yields a list whenever every capacity
  is a number, null or absent.
\<close>

theorem no_eligible_participants:
  "(filter_mentors mentors_data = Inr mentors
      \<and> (mentors = [] \<or> filter_mentees mentees_data = [])
    \<longrightarrow> perform_matching lib mentors_data mentees_data
          = Inr \<lparr>success = False,
                 message = (if mentors = [] then no_mentors_message else no_mentees_message),
                 statistics = None, matches = []\<rparr>)
   \<and> ((\<forall>m\<in>set mentors_data.
          get m ''mentor_capacity'' = JNull \<or> (\<exists>i. get m ''mentor_capacity'' = JInt i)
          \<or> (\<exists>b. get m ''mentor_capacity'' = JBool b))
       \<longrightarrow> (\<exists>kept. filter_mentors mentors_data = Inr kept))"
proof (intro conjI impI)
  assume "filter_mentors mentors_data = Inr mentors
      \<and> (mentors = [] \<or> filter_mentees mentees_data = [])"
  then show "perform_matching lib mentors_data mentees_data
          = Inr \<lparr>success = False,
                 message = (if mentors = [] then no_mentors_message else no_mentees_message),
                 statistics = None, matches = []\<rparr>"
    by (auto simp: perform_matching_def Let_def)
next
  assume "\<forall>m\<in>set mentors_data.
          get m ''mentor_capacity'' = JNull \<or> (\<exists>i. get m ''mentor_capacity'' = JInt i)
          \<or> (\<exists>b. get m ''mentor_capacity'' = JBool b)"
  then show "\<exists>kept. filter_mentors mentors_data = Inr kept"
  proof (induction mentors_data)
    case Nil
    then show ?case by simp
  next
    case (Cons m ms)
    then obtain kept where k: "filter_mentors ms = Inr kept" by auto
    from Cons.prems have "\<exists>b. py_gt_zero (py_or (get m ''mentor_capacity'') (JInt 0)) = Inr b"
      by (auto simp: py_or_def)
    with k show ?case by auto
  qed
qed

theorem no_eligible_participants_witness:
  "perform_matching unit_library
      [[(''id'', JInt 1), (''willing_to_be_mentor'', JBool True), (''mentor_capacity'', JInt 0)]]
      demo_mentees
    = Inr \<lparr>success = False, message = no_mentors_message, statistics = None, matches = []\<rparr>
   \<and> perform_matching unit_library demo_mentors
      [[(''id'', JInt 10), (''mentorship_interest'', JBool True), (''mentor_paired'', JInt 1)]]
    = Inr \<lparr>success = False, message = no_mentees_message, statistics = None, matches = []\<rparr>"
proof -
  have f1: "filter_mentors
      [[(''id'', JInt 1), (''willing_to_be_mentor'', JBool True), (''mentor_capacity'', JInt 0)]]
      = Inr []"
    by code_simp
  have f2: "filter_mentors demo_mentors = Inr [demo_mentors ! 2]" by code_simp
  have f3: "filter_mentees
      [[(''id'', JInt 10), (''mentorship_interest'', JBool True), (''mentor_paired'', JInt 1)]]
      = []"
    by code_simp
  from no_eligible_participants [of _ "[]" demo_mentees unit_library] f1
  have a: "perform_matching unit_library
      [[(''id'', JInt 1), (''willing_to_be_mentor'', JBool True), (''mentor_capacity'', JInt 0)]]
      demo_mentees
    = Inr \<lparr>success = False, message = no_mentors_message, statistics = None, matches = []\<rparr>"
    by simp
  from no_eligible_participants [of demo_mentors "[demo_mentors ! 2]" _ unit_library] f2 f3
  have b: "perform_matching unit_library demo_mentors
      [[(''id'', JInt 10), (''mentorship_interest'', JBool True), (''mentor_paired'', JInt 1)]]
    = Inr \<lparr>success = False, message = no_mentees_message, statistics = None, matches = []\<rparr>"
    by simp
  from a b show ?thesis by simp
qed

text \<open>
  Claim C10. The mentor flag is tested by plain truthiness: a non-empty string, a non-zero
  integer and a non-empty list or object all count as willing. A mentor with such a flag
  and a positive capacity passes the filter of the pipeline and the test of the matcher.
  The string "false" is truthy (and is not true under the tri-state rule of the mentee
  flags, which compares the lower-cased string with "true"), so the mentor whose flag is
  "false" is eligible; matched against a mentee in the same city, it appears under the key
  "1" whenever the library calls succeed with a 1-by-1 cosine matrix whose value is not
  negative.
\<close>

theorem mentor_flag_is_plain_truthiness:
  assumes "tfidf_vectors lib [''dummy text'', ''dummy text''] = Inr V"
    and "cosine_similarity lib (rows_from 1 V) (rows_upto 1 V) = Inr raw"
    and "nrows raw = 1" and "ncols raw = 1"
    and "0 \<le> nan_to_num 0 1 0 (cell raw 0 0)"
    and "py_truthy (get m ''willing_to_be_mentor'')"
    and "get m ''mentor_capacity'' = JInt c" and "0 < c"
  shows "py_truthy (JStr (ch # s)) \<and> (i \<noteq> 0 \<longleftrightarrow> py_truthy (JInt i))
     \<and> py_truthy (JList (x # xs)) \<and> py_truthy (JObj (kv # kvs))
     \<and> filter_mentors [m] = Inr [m] \<and> matcher_eligible m
     \<and> get false_mentor ''willing_to_be_mentor'' = JStr ''false''
     \<and> py_lower ''false'' \<noteq> ''true''
     \<and> filter_mentors [false_mentor] = Inr [false_mentor] \<and> matcher_eligible false_mentor
     \<and> (\<exists>r. perform_matching lib [false_mentor] [austin_mentee] = Inr r \<and> success r
            \<and> map_of (matches r) ''1'' \<noteq> None)"
proof -
  have e: "filter_mentors [m] = Inr [m] \<and> matcher_eligible m"
    using assms(6-8) by (simp add: matcher_eligible_def capacity_of_def py_or_def)
  have f: "get false_mentor ''willing_to_be_mentor'' = JStr ''false''
     \<and> py_lower ''false'' \<noteq> ''true'' \<and> matcher_eligible false_mentor"
    by code_simp
  from false_mentor_run [OF assms(1-5)] e f false_mentor_filter show ?thesis by simp
qed

theorem mentor_flag_is_plain_truthiness_witness:
  "filter_mentors [false_mentor] = Inr [false_mentor] \<and> matcher_eligible false_mentor
   \<and> (\<exists>r. perform_matching unit_library [false_mentor] [austin_mentee] = Inr r \<and> success r
          \<and> map_of (matches r) ''1'' \<noteq> None)"
proof -
  let ?V = "\<lparr>nrows = 2, ncols = 1, cell = (\<lambda>i j :: nat. 1 :: real)\<rparr>"
  let ?raw = "\<lparr>nrows = 1, ncols = 1, cell = (\<lambda>i j :: nat. Num 1)\<rparr>"
  have v: "tfidf_vectors unit_library [''dummy text'', ''dummy text''] = Inr ?V"
    by (simp add: unit_library_def)
  have c: "cosine_similarity unit_library (rows_from 1 ?V) (rows_upto 1 ?V) = Inr ?raw"
    by (simp add: unit_library_def rows_from_def rows_upto_def)
  have w: "py_truthy (get false_mentor ''willing_to_be_mentor'')"
    "get false_mentor ''mentor_capacity'' = JInt 1"
    by code_simp+
  have sh: "nrows ?raw = 1" "ncols ?raw = 1" "0 \<le> nan_to_num 0 1 0 (cell ?raw 0 0)"
    by simp_all
  have pos: "0 < (1 :: int)" by simp
  from mentor_flag_is_plain_truthiness [OF v c sh w pos]
  show ?thesis by blast
qed

text \<open>
  Claim C5 fails on the code for mentors that share an id. Two eligible mentors without
  an \<^verbatim>\<open>id\<close> (both have the id \<^verbatim>\<open>None\<close>) append to the same list of \<^verbatim>\<open>mentor_assignments\<close>: the
  one record of the result, under the key "None", has \<open>assigned_count\<close> 2 and two mentees.
  The same happens for two mentors with the same id.
\<close>

theorem shared_id_record_has_two_mentees:
  "perform_matching unit_library
     [[(''name'', JStr ''Ada''), (''willing_to_be_mentor'', JBool True), (''mentor_capacity'', JInt 1)],
      [(''name'', JStr ''Bob''), (''willing_to_be_mentor'', JBool True), (''mentor_capacity'', JInt 1)]]
     [[(''id'', JInt 10), (''mentorship_interest'', JBool True)]]
   = Inr \<lparr>success = True, message = ''Successfully matched 2 mentees to mentors'',
          statistics = Some \<lparr>total_mentors = 2, total_mentees = 1, total_mentees_assigned = 2,
                             total_capacity = 2\<rparr>,
          matches = [(''None'', \<lparr>mentor_id = JNull, mentor_name = JStr ''Bob'',
                                 mentor_email = JStr [], capacity = JInt 1, assigned_count = 2,
                                 mentees = [\<lparr>mentee_id = JInt 10, mentee_name = JStr ''Unknown'',
                                             mentee_email = JStr [],
                                             similarity_score = 7 / 10\<rparr>,
                                            \<lparr>mentee_id = JInt 10, mentee_name = JStr ''Unknown'',
                                             mentee_email = JStr [],
                                             similarity_score = 7 / 10\<rparr>]\<rparr>)]\<rparr>
   \<and> (case match_mentees_to_mentors
             [[(''id'', JInt 1), (''willing_to_be_mentor'', JBool True), (''mentor_capacity'', JInt 5)],
              [(''id'', JInt 1), (''willing_to_be_mentor'', JBool True), (''mentor_capacity'', JInt 5)]]
             [[(''id'', JInt 10)], [(''id'', JInt 11)]] (nd_of_rows [[1 / 2, 1 / 4], [1 / 4, 1 / 2]]) of
         Inl e \<Rightarrow> []
       | Inr res \<Rightarrow> map (\<lambda>(key, entry). (key, assigned_count entry,
                                           map mentee_id (mentees entry))) res)
      = [(''1'', 2, [JInt 10, JInt 11])]"
  by code_simp

section \<open>Properties of the text extractor\<close>

lemma no_double_Cons:
  "no_double (a # s) \<longleftrightarrow> (s = [] \<or> \<not> (is_space a \<and> is_space (hd s))) \<and> no_double s"
  by (cases s) auto

lemma no_double_drop: "no_double s \<Longrightarrow> no_double (drop n s)"
proof (induction n arbitrary: s)
  case 0
  then show ?case by simp
next
  case (Suc n)
  then show ?case by (cases s) (auto simp: no_double_Cons)
qed

lemma no_double_take: "no_double s \<Longrightarrow> no_double (take n s)"
proof (induction s arbitrary: n)
  case Nil
  then show ?case by simp
next
  case (Cons a s)
  show ?case
  proof (cases n)
    case 0
    then show ?thesis by simp
  next
    case (Suc k)
    from Cons.prems have nd: "no_double s" by (simp add: no_double_Cons)
    show ?thesis
    proof (cases "take k s")
      case Nil
      with Suc show ?thesis by auto
    next
      case (Cons b t)
      then have "s \<noteq> []" "hd (take k s) = hd s" by (cases s; cases k; auto)+
      with Cons.prems Cons.IH [OF nd, of k] Suc show ?thesis
        by (auto simp: no_double_Cons)
    qed
  qed
qed

lemma strip_as_slice: "\<exists>k. py_strip s = take k (dropWhile is_space s)"
proof -
  let ?t = "dropWhile is_space s"
  have "rev (dropWhile is_space (rev ?t))
      = rev (drop (length (takeWhile is_space (rev ?t))) (rev ?t))"
    by (simp add: dropWhile_eq_drop)
  also have "\<dots> = take (length ?t - length (takeWhile is_space (rev ?t))) ?t"
    by (simp add: rev_drop)
  finally show ?thesis unfolding py_strip_def by blast
qed

lemma strip_ends:
  assumes "py_strip s \<noteq> []"
  shows "\<not> is_space (hd (py_strip s)) \<and> \<not> is_space (last (py_strip s))"
proof -
  let ?t = "dropWhile is_space s"
  let ?u = "dropWhile is_space (rev ?t)"
  from assms have u: "?u \<noteq> []" by (simp add: py_strip_def)
  then have hu: "\<not> is_space (hd ?u)" by (rule hd_dropWhile)
  have last: "last (py_strip s) = hd ?u" by (simp add: py_strip_def last_rev)
  from strip_as_slice obtain k where k: "py_strip s = take k ?t" by blast
  with assms have "?t \<noteq> []" "hd (py_strip s) = hd ?t" by (cases k; cases ?t; auto)+
  then have "\<not> is_space (hd (py_strip s))" by (simp add: hd_dropWhile)
  with hu last show ?thesis by simp
qed

lemma strip_keeps:
  assumes "list_all P s" and "no_double s"
  shows "list_all P (py_strip s) \<and> no_double (py_strip s)"
proof -
  from strip_as_slice obtain k where k: "py_strip s = take k (dropWhile is_space s)" by blast
  have "set (py_strip s) \<subseteq> set s"
    unfolding k by (meson set_take_subset set_dropWhileD subsetI subset_trans in_mono)
  with assms(1) have a: "list_all P (py_strip s)" by (auto simp: list_all_iff)
  have "no_double (dropWhile is_space s)"
    using assms(2) by (simp add: dropWhile_eq_drop no_double_drop)
  then have "no_double (py_strip s)" unfolding k by (rule no_double_take)
  with a show ?thesis by simp
qed

lemma collapse_spaces: "list_all (\<lambda>c. is_space c \<longrightarrow> c = CHR '' '') (collapse_from f s)"
  by (induction s arbitrary: f) auto

lemma collapse_head:
  "collapse_from True s = [] \<or> \<not> is_space (hd (collapse_from True s))"
  by (induction s) auto

lemma collapse_no_double: "no_double (collapse_from f s)"
proof (induction s arbitrary: f)
  case Nil
  then show ?case by simp
next
  case (Cons c s)
  from collapse_head [of s] Cons.IH show ?case
    by (auto simp: no_double_Cons)
qed

lemma combine_normalized: "space_normalized (combine_parts parts)"
proof -
  let ?c = "collapse_ws (py_join '' '' parts)"
  have "list_all (\<lambda>c. is_space c \<longrightarrow> c = CHR '' '') ?c" "no_double ?c"
    by (simp_all add: collapse_ws_def collapse_spaces collapse_no_double)
  from strip_keeps [OF this] strip_ends [of ?c]
  have "space_normalized (py_strip ?c)" by (auto simp: space_normalized_def)
  moreover have "space_normalized []" by (simp add: space_normalized_def)
  ultimately show ?thesis by (simp add: combine_parts_def Let_def)
qed

lemma extract_normalized:
  "extract_text_from_profile loads se p b = Inr text \<Longrightarrow> space_normalized text"
  by (auto simp: extract_text_from_profile_def combine_normalized split: sum.splits)

text \<open>Steps that all return are collected.\<close>

lemma collect_returns:
  "(\<And>x. x \<in> set xs \<Longrightarrow> \<exists>v. x = Inr v) \<Longrightarrow> \<exists>vs. collect xs = Inr vs"
proof (induction xs)
  case Nil
  then show ?case by simp
next
  case (Cons x xs)
  from Cons.prems [of x] obtain v where "x = Inr v" by auto
  moreover from Cons.IH Cons.prems obtain vs where "collect xs = Inr vs" by auto
  ultimately show ?case by simp
qed

lemma str_checked_returns:
  "is_str v \<or> se v = None \<Longrightarrow> str_checked se v = Inr (py_str v)"
  by (cases v) (auto simp: str_checked_def)

lemma scalar_returns:
  assumes "\<forall>v\<in>set (scalar_arguments p key). is_str v \<or> se v = None"
  shows "\<exists>r. scalar_parts se p key = Inr r"
  using assms by (auto simp: scalar_parts_def scalar_arguments_def str_checked_returns)

lemma preference_returns:
  assumes "\<forall>v\<in>set (if b then scalar_arguments p ''mentor_preference'' else []).
             is_str v \<or> se v = None"
  shows "\<exists>r. mentor_preference_parts se p b = Inr r"
  using assms
  by (auto simp: mentor_preference_parts_def scalar_arguments_def str_checked_returns Let_def)

lemma joined_returns:
  assumes "\<forall>v\<in>set (list_arguments p key). is_str v \<or> se v = None"
  shows "\<exists>r. joined_parts se p key = Inr r"
proof (cases "get p key")
  case (JList xs)
  with assms have "\<And>x. x \<in> set (map (str_checked se) xs) \<Longrightarrow> \<exists>v. x = Inr v"
    by (auto simp: list_arguments_def str_checked_returns)
  from collect_returns [OF this] obtain vs where "collect (map (str_checked se) xs) = Inr vs"
    by blast
  with JList show ?thesis by (simp add: joined_parts_def)
qed (simp_all add: joined_parts_def)

lemma resume_returns:
  assumes l: "\<forall>s e. get p ''parsed_resume'' = JStr s \<longrightarrow> s = [] \<or> loads s \<noteq> Raised e"
    and a: "\<forall>v\<in>set (resume_arguments loads p). is_str v \<or> se v = None"
  shows "\<exists>r. resume_parts loads se p = Inr r"
proof (cases "py_truthy (get p ''parsed_resume'')")
  case False
  then show ?thesis by (simp add: resume_parts_def)
next
  case True
  have "\<exists>v. decode_resume loads (get p ''parsed_resume'') = Inr v"
  proof (cases "get p ''parsed_resume''")
    case (JStr s)
    with True l have "\<forall>e. loads s \<noteq> Raised e" by auto
    with JStr show ?thesis by (cases "loads s") (auto simp: decode_resume_def)
  qed (simp_all add: decode_resume_def)
  then obtain d where d: "decode_resume loads (get p ''parsed_resume'') = Inr d" by blast
  show ?thesis
  proof (cases d)
    case (JObj kvs)
    have "\<exists>v. x = Inr v" if "x \<in> set (map (resume_field se kvs) resume_text_fields)" for x
    proof -
      from that obtain field where f: "field \<in> set resume_text_fields"
        and x: "x = resume_field se kvs field" by auto
      show ?thesis
      proof (cases "map_of kvs field")
        case None
        with x show ?thesis by (simp add: resume_field_def)
      next
        case (Some v)
        with f True d JObj have "v \<in> set (resume_arguments loads p)"
          by (auto simp: resume_arguments_def intro!: bexI [of _ field])
        with a have "str_checked se v = Inr (py_str v)" by (simp add: str_checked_returns)
        with x Some show ?thesis by (simp add: resume_field_def)
      qed
    qed
    from collect_returns [OF this] obtain vs where
      "collect (map (resume_field se kvs) resume_text_fields) = Inr vs" by blast
    with True d JObj show ?thesis by (simp add: resume_parts_def)
  qed (use True d in \<open>simp_all add: resume_parts_def\<close>)
qed

text \<open>
  The extractor returns unless the decoder raises on a non-empty resume string or \<^verbatim>\<open>str\<close>
  raises on one of its arguments.
\<close>

lemma extract_returns:
  assumes l: "\<forall>s e. get p ''parsed_resume'' = JStr s \<longrightarrow> s = [] \<or> loads s \<noteq> Raised e"
    and a: "\<forall>v\<in>set (str_arguments loads p b). is_str v \<or> se v = None"
  shows "\<exists>text. extract_text_from_profile loads se p b = Inr text"
proof -
  from a have
    a1: "\<forall>v\<in>set (if b then scalar_arguments p ''mentor_preference'' else []).
            is_str v \<or> se v = None"
    and a2: "\<forall>v\<in>set (list_arguments p ''skills''). is_str v \<or> se v = None"
    and a3: "\<forall>v\<in>set (scalar_arguments p ''aspirations''). is_str v \<or> se v = None"
    and a4: "\<forall>v\<in>set (resume_arguments loads p). is_str v \<or> se v = None"
    and a5: "\<forall>v\<in>set (list_arguments p ''achievements''). is_str v \<or> se v = None"
    and a6: "\<forall>v\<in>set (scalar_arguments p ''major''). is_str v \<or> se v = None"
    and a7: "\<forall>v\<in>set (list_arguments p ''relevant_coursework''). is_str v \<or> se v = None"
    by (simp_all add: str_arguments_def)
  from preference_returns [OF a1] joined_returns [OF a2] scalar_returns [OF a3]
    resume_returns [OF l a4] joined_returns [OF a5] scalar_returns [OF a6]
    joined_returns [OF a7]
  obtain r1 r2 r3 r4 r5 r6 r7 where
    "mentor_preference_parts se p b = Inr r1" "joined_parts se p ''skills'' = Inr r2"
    "scalar_parts se p ''aspirations'' = Inr r3" "resume_parts loads se p = Inr r4"
    "joined_parts se p ''achievements'' = Inr r5" "scalar_parts se p ''major'' = Inr r6"
    "joined_parts se p ''relevant_coursework'' = Inr r7"
    by blast
  then show ?thesis
    by (simp add: extract_text_from_profile_def text_parts_def)
qed

lemma get_delete: "get (AList.delete k p) key = (if key = k then JNull else get p key)"
  by (simp add: get_def delete_conv')

lemma joined_delete:
  "key = k \<longrightarrow> \<not> is_nonempty_list (get p k) \<Longrightarrow>
     joined_parts se (AList.delete k p) key = joined_parts se p key"
  by (cases "get p key" rule: is_nonempty_list.cases)
     (auto simp: joined_parts_def get_delete)

lemma record_delete:
  "key = k \<longrightarrow> \<not> is_nonempty_list (get p k) \<Longrightarrow>
     record_parts (AList.delete k p) key = record_parts p key"
  by (cases "get p key" rule: is_nonempty_list.cases)
     (auto simp: record_parts_def get_delete)

lemma scalar_delete:
  "key = k \<longrightarrow> \<not> py_truthy (get p k) \<Longrightarrow>
     scalar_parts se (AList.delete k p) key = scalar_parts se p key"
  by (auto simp: scalar_parts_def get_delete)

lemma preference_delete:
  "''mentor_preference'' = k \<longrightarrow> \<not> py_truthy (get p k) \<Longrightarrow>
     mentor_preference_parts se (AList.delete k p) b = mentor_preference_parts se p b"
  by (auto simp: mentor_preference_parts_def get_delete)

lemma resume_delete:
  "''parsed_resume'' = k \<longrightarrow> field_skipped loads ''parsed_resume'' (get p k) \<Longrightarrow>
     resume_parts loads se (AList.delete k p) = resume_parts loads se p"
proof (cases "''parsed_resume'' = k")
  case False
  then show ?thesis by (simp add: resume_parts_def get_delete)
next
  case True
  assume "''parsed_resume'' = k \<longrightarrow> field_skipped loads ''parsed_resume'' (get p k)"
  with True have sk: "field_skipped loads ''parsed_resume'' (get p ''parsed_resume'')" by auto
  have "resume_parts loads se p = Inr []"
  proof (cases "get p ''parsed_resume''")
    case (JStr s)
    show ?thesis
    proof (cases "s = []")
      case True
      with JStr show ?thesis by (simp add: resume_parts_def)
    next
      case False
      with sk JStr have d: "decodes_to_other (loads s)"
        by (simp add: field_skipped_def list_fields_def)
      then show ?thesis
        using JStr False
        by (cases "loads s" rule: decodes_to_other.cases)
           (auto simp: resume_parts_def decode_resume_def)
    qed
  next
    case (JObj kvs)
    with sk show ?thesis by (simp add: resume_parts_def field_skipped_def list_fields_def)
  qed (simp_all add: resume_parts_def decode_resume_def)
  with True show ?thesis by (simp add: resume_parts_def get_delete)
qed

lemma parts_falsy:
  assumes "\<not> py_truthy (get p key)"
  shows "joined_parts se p key = Inr []" "record_parts p key = []"
    "scalar_parts se p key = Inr []"
  using assms
  by (cases "get p key"; simp add: joined_parts_def record_parts_def scalar_parts_def)+

lemma text_parts_only:
  assumes k: "k \<in> set [''aspirations'', ''major'']"
    and others: "\<forall>key\<in>set text_fields. key \<noteq> k \<longrightarrow> \<not> py_truthy (get p key)"
    and v: "py_truthy (get p k)"
    and s: "is_str (get p k) \<or> se (get p k) = None"
  shows "text_parts loads se p b = Inr [py_str (get p k)]"
proof -
  have f: "\<not> py_truthy (get p ''mentor_preference'')" "\<not> py_truthy (get p ''parsed_resume'')"
    "\<not> py_truthy (get p ''skills'')" "\<not> py_truthy (get p ''projects'')"
    "\<not> py_truthy (get p ''experiences'')" "\<not> py_truthy (get p ''achievements'')"
    "\<not> py_truthy (get p ''relevant_coursework'')"
    using others k by (auto simp: text_fields_def list_fields_def)
  from k have "k = ''aspirations'' \<or> k = ''major''" by simp
  then show ?thesis
  proof
    assume a: "k = ''aspirations''"
    with others have "\<not> py_truthy (get p ''major'')"
      by (simp add: text_fields_def list_fields_def)
    with f v a s show ?thesis
      by (simp add: text_parts_def parts_falsy mentor_preference_parts_def resume_parts_def
          scalar_parts_def str_checked_returns)
  next
    assume a: "k = ''major''"
    with others have "\<not> py_truthy (get p ''aspirations'')"
      by (simp add: text_fields_def list_fields_def)
    with f v a s show ?thesis
      by (simp add: text_parts_def parts_falsy mentor_preference_parts_def resume_parts_def
          scalar_parts_def str_checked_returns)
  qed
qed

text \<open>The stand-in for \<^verbatim>\<open>str\<close> on small and on large integers.\<close>

lemma digit_limit_small: "\<bar>i\<bar> < 100 \<Longrightarrow> digit_limit_str (JInt i) = None"
proof -
  assume i: "\<bar>i\<bar> < 100"
  have "(10 :: int) ^ 2 \<le> 10 ^ default_max_str_digits"
    by (rule power_increasing) (simp_all add: default_max_str_digits_def)
  with i have "\<bar>i\<bar> < 10 ^ default_max_str_digits" by simp
  then show ?thesis by (simp add: digit_limit_str_def)
qed

lemma digit_limit_large: "digit_limit_str (JInt (10 ^ 5000)) = Some ValueError"
proof -
  have "(10 :: int) ^ default_max_str_digits \<le> 10 ^ 5000"
    by (rule power_increasing) (simp_all add: default_max_str_digits_def)
  moreover have "\<bar>10 ^ 5000 :: int\<bar> = 10 ^ 5000"
    by (rule abs_of_nonneg, rule zero_le_power) simp
  ultimately have "\<not> \<bar>10 ^ 5000 :: int\<bar> < 10 ^ default_max_str_digits"
    by (simp only: not_less)
  then show ?thesis
    by (simp only: digit_limit_str_def within_digit_limit.simps if_False)
qed

lemma str_raises_on_scalar:
  assumes "n \<noteq> 0" "se (JInt n) = Some e"
  shows "extract_text_from_profile loads se [(''aspirations'', JInt n)] False = Inl e"
  using assms
  by (simp add: extract_text_from_profile_def text_parts_def mentor_preference_parts_def
      joined_parts_def scalar_parts_def str_checked_def get_def)

text \<open>
  Claim C9, as the code has it. The extractor can fail in two places only: \<^verbatim>\<open>json.loads\<close>
  can raise something other than a decoding error on a non-empty \<^verbatim>\<open>parsed_resume\<close> string,
  and \<^verbatim>\<open>str\<close> can raise on a value handed to it that is no string (an integer beyond the
  digit limit, a value nested too deeply). For a profile on which neither happens the
  extractor returns a string, and every string it returns is space-normalized. A field
  the extractor passes over contributes nothing: the outcome is the same as for the
  profile without the field. That holds for a list field (\<^verbatim>\<open>skills\<close>, \<^verbatim>\<open>projects\<close>,
  \<^verbatim>\<open>experiences\<close>, \<^verbatim>\<open>achievements\<close>, \<^verbatim>\<open>relevant_coursework\<close>) that is absent, empty or no
  list, for a \<^verbatim>\<open>parsed_resume\<close> that is absent, empty, or neither an object nor a string
  decoding to one, and for a single-string field (\<^verbatim>\<open>mentor_preference\<close>, \<^verbatim>\<open>aspirations\<close>,
  \<^verbatim>\<open>major\<close>) that is absent or falsy. A truthy \<^verbatim>\<open>aspirations\<close> or \<^verbatim>\<open>major\<close> of any type is
  not passed over: where it is the only truthy field and \<^verbatim>\<open>str\<close> does not raise on it, the
  output is its \<^verbatim>\<open>str\<close>, space-normalized. When every field is absent or falsy the
  output is the empty string.
\<close>

theorem extractor_skips_and_normalizes:
  "((\<forall>s e. get p ''parsed_resume'' = JStr s \<longrightarrow> s = [] \<or> loads s \<noteq> Raised e)
      \<and> (\<forall>v\<in>set (str_arguments loads p b). is_str v \<or> str_error v = None)
      \<longrightarrow> (\<exists>text. extract_text_from_profile loads str_error p b = Inr text
                   \<and> space_normalized text))
   \<and> (\<forall>text. extract_text_from_profile loads str_error p b = Inr text
          \<longrightarrow> space_normalized text)
   \<and> (field_skipped loads k (get p k) \<longrightarrow>
        extract_text_from_profile loads str_error (AList.delete k p) b
          = extract_text_from_profile loads str_error p b)
   \<and> (k \<in> set [''aspirations'', ''major''] \<and> py_truthy (get p k)
        \<and> (is_str (get p k) \<or> str_error (get p k) = None)
        \<and> (\<forall>key\<in>set text_fields. key \<noteq> k \<longrightarrow> \<not> py_truthy (get p key))
        \<longrightarrow> extract_text_from_profile loads str_error p b
              = Inr (combine_parts [py_str (get p k)]))
   \<and> ((\<forall>key\<in>set text_fields. \<not> py_truthy (get p key))
        \<longrightarrow> extract_text_from_profile loads str_error p b = Inr [])
   \<and> extract_text_from_profile loads str_error [] b = Inr []"
proof (intro conjI impI allI)
  assume h: "(\<forall>s e. get p ''parsed_resume'' = JStr s \<longrightarrow> s = [] \<or> loads s \<noteq> Raised e)
      \<and> (\<forall>v\<in>set (str_arguments loads p b). is_str v \<or> str_error v = None)"
  from h have h1: "\<forall>s e. get p ''parsed_resume'' = JStr s \<longrightarrow> s = [] \<or> loads s \<noteq> Raised e"
    and h2: "\<forall>v\<in>set (str_arguments loads p b). is_str v \<or> str_error v = None"
    by simp_all
  from extract_returns [OF h1 h2] obtain out where
    "extract_text_from_profile loads str_error p b = Inr out" by (elim exE)
  with extract_normalized [OF this]
  show "\<exists>text. extract_text_from_profile loads str_error p b = Inr text \<and> space_normalized text"
    by blast
next
  fix out assume "extract_text_from_profile loads str_error p b = Inr out"
  then show "space_normalized out" by (rule extract_normalized)
next
  assume skip: "field_skipped loads k (get p k)"
  have l: "key = k \<longrightarrow> \<not> is_nonempty_list (get p k)" if "key \<in> set list_fields" for key
    using skip that by (auto simp: field_skipped_def)
  have l1: "''skills'' = k \<longrightarrow> \<not> is_nonempty_list (get p k)"
    and l2: "''projects'' = k \<longrightarrow> \<not> is_nonempty_list (get p k)"
    and l3: "''experiences'' = k \<longrightarrow> \<not> is_nonempty_list (get p k)"
    and l4: "''achievements'' = k \<longrightarrow> \<not> is_nonempty_list (get p k)"
    and l5: "''relevant_coursework'' = k \<longrightarrow> \<not> is_nonempty_list (get p k)"
    by (rule l, simp add: list_fields_def)+
  have s1: "''aspirations'' = k \<longrightarrow> \<not> py_truthy (get p k)"
    and s2: "''major'' = k \<longrightarrow> \<not> py_truthy (get p k)"
    and s3: "''mentor_preference'' = k \<longrightarrow> \<not> py_truthy (get p k)"
    using skip by (auto simp: field_skipped_def list_fields_def)
  have r: "''parsed_resume'' = k \<longrightarrow> field_skipped loads ''parsed_resume'' (get p k)"
    using skip by auto
  have "text_parts loads str_error (AList.delete k p) b = text_parts loads str_error p b"
    unfolding text_parts_def
    by (simp only: joined_delete [OF l1] joined_delete [OF l4] joined_delete [OF l5]
        record_delete [OF l2] record_delete [OF l3] scalar_delete [OF s1] scalar_delete [OF s2]
        preference_delete [OF s3] resume_delete [OF r])
  then show "extract_text_from_profile loads str_error (AList.delete k p) b
      = extract_text_from_profile loads str_error p b"
    by (simp add: extract_text_from_profile_def)
next
  assume "k \<in> set [''aspirations'', ''major''] \<and> py_truthy (get p k)
        \<and> (is_str (get p k) \<or> str_error (get p k) = None)
        \<and> (\<forall>key\<in>set text_fields. key \<noteq> k \<longrightarrow> \<not> py_truthy (get p key))"
  then have "text_parts loads str_error p b = Inr [py_str (get p k)]"
    by (intro text_parts_only) simp_all
  then show "extract_text_from_profile loads str_error p b
      = Inr (combine_parts [py_str (get p k)])"
    by (simp add: extract_text_from_profile_def)
next
  assume all: "\<forall>key\<in>set text_fields. \<not> py_truthy (get p key)"
  then have f: "\<not> py_truthy (get p ''mentor_preference'')" "\<not> py_truthy (get p ''aspirations'')"
    "\<not> py_truthy (get p ''major'')" "\<not> py_truthy (get p ''parsed_resume'')"
    "\<not> py_truthy (get p ''skills'')" "\<not> py_truthy (get p ''projects'')"
    "\<not> py_truthy (get p ''experiences'')" "\<not> py_truthy (get p ''achievements'')"
    "\<not> py_truthy (get p ''relevant_coursework'')"
    by (simp_all add: text_fields_def list_fields_def)
  have "text_parts loads str_error p b = Inr []"
    using f by (simp add: text_parts_def parts_falsy mentor_preference_parts_def resume_parts_def)
  then show "extract_text_from_profile loads str_error p b = Inr []"
    by (simp add: extract_text_from_profile_def combine_parts_def py_strip_def collapse_ws_def)
next
  have "text_parts loads str_error [] b = Inr []"
    by (simp add: text_parts_def parts_falsy mentor_preference_parts_def resume_parts_def get_def)
  then show "extract_text_from_profile loads str_error [] b = Inr []"
    by (simp add: extract_text_from_profile_def combine_parts_def py_strip_def collapse_ws_def)
qed

theorem extractor_skips_and_normalizes_witness:
  "extract_text_from_profile digit_limit_loads digit_limit_str
       (AList.delete ''skills''
          [(''skills'', JStr ''python''), (''major'', JInt 42), (''parsed_resume'', JStr ''{'')])
       False
     = extract_text_from_profile digit_limit_loads digit_limit_str
         [(''skills'', JStr ''python''), (''major'', JInt 42), (''parsed_resume'', JStr ''{'')]
         False
   \<and> extract_text_from_profile digit_limit_loads digit_limit_str
         [(''skills'', JStr ''python''), (''major'', JInt 42), (''parsed_resume'', JStr ''{'')]
         False = Inr ''42''
   \<and> space_normalized ''42''
   \<and> extract_text_from_profile digit_limit_loads digit_limit_str
         [(''major'', JInt 42)] False = Inr ''42''
   \<and> extract_text_from_profile digit_limit_loads digit_limit_str
         [(''skills'', JList []), (''major'', JNull)] True = Inr []"
proof -
  let ?p = "[(''skills'', JStr ''python''), (''major'', JInt 42), (''parsed_resume'', JStr ''{'')]"
  let ?q = "[(''skills'', JList []), (''major'', JNull)]"
  let ?r = "[(''major'', JInt 42)]"
  have s42: "digit_limit_str (JInt 42) = None" by (rule digit_limit_small) simp
  have ok: "(\<forall>s e. get ?p ''parsed_resume'' = JStr s \<longrightarrow> s = [] \<or> digit_limit_loads s \<noteq> Raised e)
      \<and> (\<forall>v\<in>set (str_arguments digit_limit_loads ?p False). is_str v \<or> digit_limit_str v = None)"
    by (simp add: get_def digit_limit_loads_def str_arguments_def scalar_arguments_def
        list_arguments_def resume_arguments_def decode_resume_def s42)
  have sk: "field_skipped digit_limit_loads ''skills'' (get ?p ''skills'')" by code_simp
  have fa: "\<forall>key\<in>set text_fields. \<not> py_truthy (get ?q key)" by code_simp
  have only: "''major'' \<in> set [''aspirations'', ''major''] \<and> py_truthy (get ?r ''major'')
      \<and> (is_str (get ?r ''major'') \<or> digit_limit_str (get ?r ''major'') = None)
      \<and> (\<forall>key\<in>set text_fields. key \<noteq> ''major'' \<longrightarrow> \<not> py_truthy (get ?r key))"
    by (simp add: get_def s42 text_fields_def list_fields_def)
  have v: "combine_parts [py_str (get ?r ''major'')] = ''42''" by code_simp
  note t = extractor_skips_and_normalizes [of ?p digit_limit_loads False digit_limit_str "''skills''"]
  note u = extractor_skips_and_normalizes [of ?q digit_limit_loads True digit_limit_str "''skills''"]
  note w = extractor_skips_and_normalizes [of ?r digit_limit_loads False digit_limit_str "''major''"]
  from t ok obtain out where
    tx: "extract_text_from_profile digit_limit_loads digit_limit_str ?p False = Inr out"
    "space_normalized out"
    by blast
  from w only v
  have d: "extract_text_from_profile digit_limit_loads digit_limit_str ?r False = Inr ''42''"
    by simp
  from t sk
  have a: "extract_text_from_profile digit_limit_loads digit_limit_str (AList.delete ''skills'' ?p) False
     = extract_text_from_profile digit_limit_loads digit_limit_str ?p False"
    by blast
  have val: "extract_text_from_profile digit_limit_loads digit_limit_str ?p False = Inr ''42''"
  proof -
    have "text_parts digit_limit_loads digit_limit_str ?p False = Inr [''42'']"
      by (simp add: text_parts_def mentor_preference_parts_def joined_parts_def
          record_parts_def scalar_parts_def resume_parts_def decode_resume_def
          digit_limit_loads_def str_checked_def get_def s42 int_str_def nat_digits.simps
          digit_char_def)
    moreover have "combine_parts [''42''] = ''42''" by code_simp
    ultimately show ?thesis by (simp add: extract_text_from_profile_def)
  qed
  with tx have b: "space_normalized ''42''" by simp
  from u fa
  have c: "extract_text_from_profile digit_limit_loads digit_limit_str ?q True = Inr []"
    by blast
  from a val b d c show ?thesis by (intro conjI)
qed

text \<open>
  Claim C9 as stated fails. A field of a non-matching type is not always passed over: an
  integer where the string \<^verbatim>\<open>aspirations\<close> is expected contributes its digits, and a list
  where the string \<^verbatim>\<open>major\<close> is expected contributes its \<^verbatim>\<open>repr\<close>. And the extractor can
  fail: on a \<^verbatim>\<open>parsed_resume\<close> string of 5000 digits \<^verbatim>\<open>json.loads\<close> raises \<^verbatim>\<open>ValueError\<close>,
  which is not caught, and on an \<^verbatim>\<open>aspirations\<close> that is an integer of 5001 digits \<^verbatim>\<open>str\<close>
  raises \<^verbatim>\<open>ValueError\<close>.
\<close>

theorem wrong_type_contributes_counterexample:
  "extract_text_from_profile digit_limit_loads digit_limit_str
       [(''aspirations'', JInt 5)] False = Inr ''5''
   \<and> extract_text_from_profile digit_limit_loads digit_limit_str
       [(''major'', JList [JStr ''CS''])] False
       = Inr [CHR ''['', CHR 0x27, CHR ''C'', CHR ''S'', CHR 0x27, CHR '']'']
   \<and> extract_text_from_profile digit_limit_loads digit_limit_str
         [(''parsed_resume'', JStr (replicate 5000 (CHR ''1'')))] False
       = Inl ValueError
   \<and> extract_text_from_profile digit_limit_loads digit_limit_str
         [(''aspirations'', JInt (10 ^ 5000))] False
       = Inl ValueError"
proof -
  have s5: "digit_limit_str (JInt 5) = None" by (rule digit_limit_small) simp
  have a: "extract_text_from_profile digit_limit_loads digit_limit_str
       [(''aspirations'', JInt 5)] False = Inr ''5''"
  proof -
    have "text_parts digit_limit_loads digit_limit_str [(''aspirations'', JInt 5)] False
        = Inr [''5'']"
      by (simp add: text_parts_def mentor_preference_parts_def joined_parts_def
          record_parts_def scalar_parts_def resume_parts_def str_checked_def get_def s5
          int_str_def nat_digits.simps digit_char_def)
    moreover have "combine_parts [''5''] = ''5''" by code_simp
    ultimately show ?thesis by (simp add: extract_text_from_profile_def)
  qed
  have b: "extract_text_from_profile digit_limit_loads digit_limit_str
       [(''major'', JList [JStr ''CS''])] False
       = Inr [CHR ''['', CHR 0x27, CHR ''C'', CHR ''S'', CHR 0x27, CHR '']'']"
    by code_simp
  have "digit_limit_loads (replicate 5000 (CHR ''1'')) = Raised ValueError"
    by (simp add: digit_limit_loads_def list_all_iff)
  then have c: "extract_text_from_profile digit_limit_loads digit_limit_str
         [(''parsed_resume'', JStr (replicate 5000 (CHR ''1'')))] False = Inl ValueError"
    by (simp add: extract_text_from_profile_def text_parts_def resume_parts_def
        decode_resume_def get_def mentor_preference_parts_def joined_parts_def
        scalar_parts_def)
  have "(10 :: int) ^ 5000 \<noteq> 0" by (rule power_not_zero) simp
  from str_raises_on_scalar [of "10 ^ 5000" digit_limit_str ValueError digit_limit_loads,
      OF this digit_limit_large]
  have d: "extract_text_from_profile digit_limit_loads digit_limit_str
         [(''aspirations'', JInt (10 ^ 5000))] False = Inl ValueError" .
  from a b c d show ?thesis by (intro conjI)
qed

end
